theory Spec2Isabelle
  imports Main
begin

section \<open>JavaScript values\<close>

text \<open>
  The generators of the repository (mongodbGenerator.js, firebaseGenerator.js,
  dynamodbGenerator.js, couchdbGenerator.js and the dispatcher nosqlGenerator.js) are pure
  tree-to-string transforms over a parsed JSON value. A value is modelled by the datatype
  \<open>js\<close>. Strings are lists of 8-bit characters. The code tests
  \<open>value instanceof Date\<close>, so a date is a value of its own: \<open>JDate d\<close> is a valid Date
  whose \<open>toISOString()\<close> is \<open>d\<close>. An object is the list of its own enumerable properties
  in the order in which \<open>Object.entries\<close> enumerates them.

  A number of the program is an IEEE double, and the code only tests it for truthiness and
  renders it with \<open>String(value)\<close>. The model splits the numbers in two. \<open>JNum n\<close> is a
  safe integer (\<open>Number.isSafeInteger\<close>: magnitude below \<open>2^53\<close>), which the double
  holds exactly and \<open>String\<close> renders by its decimal digits; the zero with a sign bit is
  the safe integer \<open>0\<close>, as it is falsy and renders as \<open>0\<close> too. \<open>JNumText t\<close> is any
  other number, given by the text \<open>t\<close> that \<open>String(value)\<close> yields for it (\<open>1.5\<close>,
  \<open>1152921504606847000\<close>, \<open>1e+21\<close>); that text determines the double, and such a
  number is never zero.

  \<open>numberValue\<close> reads the integer of a safe integer. \<open>safeInteger n\<close> writes the safe
  integer \<open>n\<close>; it is meant for an \<open>n\<close> of magnitude below \<open>2^53\<close> only, and is \<open>0\<close> for
  any other \<open>n\<close> (the number \<open>2^60\<close> is \<open>JNumText ''1152921504606847000''\<close>).
\<close>

typedef safeInteger = "{n :: int. \<bar>n\<bar> < 9007199254740992}"
  by (rule exI[of _ 0]) simp

setup_lifting type_definition_safeInteger

lift_definition numberValue :: "safeInteger \<Rightarrow> int" is "\<lambda>n. n" .

lift_definition safeInteger :: "int \<Rightarrow> safeInteger" is
  "\<lambda>n. if \<bar>n\<bar> < 9007199254740992 then n else 0"
  by simp

instantiation safeInteger :: equal
begin

lift_definition equal_safeInteger :: "safeInteger \<Rightarrow> safeInteger \<Rightarrow> bool" is "(=)" .

instance
  by standard (transfer, simp)

end

datatype js =
    JNull
  | JBool bool
  | JNum safeInteger
  | JNumText string
  | JStr string
  | JDate string
  | JArr "js list"
  | JObj "(string \<times> js) list"

text \<open>What a call can throw: the TypeError of the runtime, or \<open>new Error(message)\<close>.\<close>

datatype error = TypeError | Error string

subsection \<open>Characters and strings\<close>

definition dq :: char where
  "dq = CHR 0x22"

definition sq :: char where
  "sq = CHR 0x27"

definition bsl :: char where
  "bsl = CHR 0x5C"

definition digitChar :: "nat \<Rightarrow> char" where
  "digitChar d = ''0123456789'' ! d"

fun natToString :: "nat \<Rightarrow> string" where
  "natToString n =
     (if n < 10 then [digitChar n] else natToString (n div 10) @ [digitChar (n mod 10)])"

declare natToString.simps [simp del]

text \<open>\<open>String(value)\<close> for a number and for a boolean.\<close>

definition numberToString :: "safeInteger \<Rightarrow> string" where
  "numberToString n =
     (if numberValue n < 0 then CHR ''-'' # natToString (nat (- numberValue n))
      else natToString (nat (numberValue n)))"

definition booleanToString :: "bool \<Rightarrow> string" where
  "booleanToString b = (if b then ''true'' else ''false'')"

text \<open>\<open>Array.prototype.join\<close> on an array of strings.\<close>

fun joinStr :: "string \<Rightarrow> string list \<Rightarrow> string" where
  "joinStr sep [] = []"
| "joinStr sep [x] = x"
| "joinStr sep (x # y # r) = x @ sep @ joinStr sep (y # r)"

text \<open>\<open>value.replace(/"/g, '\\"')\<close>: every double quote becomes backslash, double quote.\<close>

fun escapeQuotes :: "string \<Rightarrow> string" where
  "escapeQuotes [] = []"
| "escapeQuotes (c # cs) = (if c = dq then bsl # dq # escapeQuotes cs else c # escapeQuotes cs)"

text \<open>\<open>s.startsWith(p)\<close>, \<open>s.endsWith(p)\<close>, \<open>s.includes(p)\<close>.\<close>

definition startsWith :: "string \<Rightarrow> string \<Rightarrow> bool" where
  "startsWith s p = (take (length p) s = p)"

definition endsWith :: "string \<Rightarrow> string \<Rightarrow> bool" where
  "endsWith s p = (length p \<le> length s \<and> drop (length s - length p) s = p)"

fun includesStr :: "string \<Rightarrow> string \<Rightarrow> bool" where
  "includesStr [] p = (p = [])"
| "includesStr (c # cs) p = (startsWith (c # cs) p \<or> includesStr cs p)"

text \<open>
  \<open>toLowerCase\<close> on the ASCII letters, and \<open>toUpperCase\<close> of one character. The
  upper-case form of a character is a string: the ASCII and the Latin-1 small letters
  (\<open>0xE0\<close> to \<open>0xFE\<close> but the division sign \<open>0xF7\<close>) move down by \<open>0x20\<close>, the sharp
  s \<open>0xDF\<close> becomes \<open>SS\<close>, every other character stays. The micro sign \<open>0xB5\<close> and
  \<open>0xFF\<close>, whose upper-case forms are no 8-bit characters, are outside the model.
\<close>

definition toLowerChar :: "char \<Rightarrow> char" where
  "toLowerChar c =
     (case map_of (zip ''ABCDEFGHIJKLMNOPQRSTUVWXYZ'' ''abcdefghijklmnopqrstuvwxyz'') c of
        Some l \<Rightarrow> l | None \<Rightarrow> c)"

definition toUpperCaseChar :: "char \<Rightarrow> string" where
  "toUpperCaseChar c =
     (case map_of (zip ''abcdefghijklmnopqrstuvwxyz'' ''ABCDEFGHIJKLMNOPQRSTUVWXYZ'') c of
        Some u \<Rightarrow> [u]
      | None \<Rightarrow>
          if c = CHR 0xDF then ''SS''
          else if 224 \<le> (of_char c :: nat) \<and> (of_char c :: nat) \<le> 254 \<and> c \<noteq> CHR 0xF7
          then [char_of (of_char c - 32 :: nat)]
          else [c])"

definition toLowerCase :: "string \<Rightarrow> string" where
  "toLowerCase s = map toLowerChar s"

definition isDigit :: "char \<Rightarrow> bool" where
  "isDigit c = (c \<in> set ''0123456789'')"

subsection \<open>Value serializers\<close>

text \<open>
  \<open>mongoValueToString\<close>, \<open>firebaseValueToString\<close>, \<open>dynamoValueToString\<close> and
  \<open>couchValueToString\<close>, one per generator module. The branches are in the order of the
  source; the final \<open>return String(value)\<close> is reached by no value of \<open>js\<close>.
\<close>

fun mongoValueToString :: "js \<Rightarrow> string" where
  "mongoValueToString JNull = ''null''"
| "mongoValueToString (JStr s) = dq # escapeQuotes s @ [dq]"
| "mongoValueToString (JNum n) = numberToString n"
| "mongoValueToString (JNumText t) = t"
| "mongoValueToString (JBool b) = booleanToString b"
| "mongoValueToString (JDate d) = ''ISODate('' @ [dq] @ d @ [dq] @ '')''"
| "mongoValueToString (JArr xs) = ''['' @ joinStr '', '' (map mongoValueToString xs) @ '']''"
| "mongoValueToString (JObj es) =
     ''{ '' @ joinStr '', '' (map (\<lambda>(k, v). k @ '': '' @ mongoValueToString v) es) @ '' }''"

fun firebaseValueToString :: "js \<Rightarrow> string" where
  "firebaseValueToString JNull = ''null''"
| "firebaseValueToString (JStr s) = dq # escapeQuotes s @ [dq]"
| "firebaseValueToString (JNum n) = numberToString n"
| "firebaseValueToString (JNumText t) = t"
| "firebaseValueToString (JBool b) = booleanToString b"
| "firebaseValueToString (JDate d) = ''new Date('' @ [dq] @ d @ [dq] @ '')''"
| "firebaseValueToString (JArr xs) =
     ''['' @ joinStr '', '' (map firebaseValueToString xs) @ '']''"
| "firebaseValueToString (JObj es) =
     ''{ '' @ joinStr '', '' (map (\<lambda>(k, v). k @ '': '' @ firebaseValueToString v) es) @ '' }''"

fun dynamoValueToString :: "js \<Rightarrow> string" where
  "dynamoValueToString JNull = ''null''"
| "dynamoValueToString (JStr s) = dq # escapeQuotes s @ [dq]"
| "dynamoValueToString (JNum n) = numberToString n"
| "dynamoValueToString (JNumText t) = t"
| "dynamoValueToString (JBool b) = booleanToString b"
| "dynamoValueToString (JDate d) = [dq] @ d @ [dq]"
| "dynamoValueToString (JArr xs) = ''['' @ joinStr '', '' (map dynamoValueToString xs) @ '']''"
| "dynamoValueToString (JObj es) =
     ''{ '' @ joinStr '', '' (map (\<lambda>(k, v). k @ '': '' @ dynamoValueToString v) es) @ '' }''"

fun couchValueToString :: "js \<Rightarrow> string" where
  "couchValueToString JNull = ''null''"
| "couchValueToString (JStr s) = dq # escapeQuotes s @ [dq]"
| "couchValueToString (JNum n) = numberToString n"
| "couchValueToString (JNumText t) = t"
| "couchValueToString (JBool b) = booleanToString b"
| "couchValueToString (JDate d) = [dq] @ d @ [dq]"
| "couchValueToString (JArr xs) = ''['' @ joinStr '', '' (map couchValueToString xs) @ '']''"
| "couchValueToString (JObj es) =
     ''{ '' @ joinStr '', '' (map (\<lambda>(k, v). k @ '': '' @ couchValueToString v) es) @ '' }''"

text \<open>The four backend targets, and the serializer of each.\<close>

datatype backend = MongoDB | Firebase | DynamoDB | CouchDB

fun valueToString :: "backend \<Rightarrow> js \<Rightarrow> string" where
  "valueToString MongoDB = mongoValueToString"
| "valueToString Firebase = firebaseValueToString"
| "valueToString DynamoDB = dynamoValueToString"
| "valueToString CouchDB = couchValueToString"

section \<open>Objects\<close>

text \<open>
  \<open>typeof value === 'object'\<close> and \<open>Array.isArray(value)\<close>.
\<close>

fun typeofObject :: "js \<Rightarrow> bool" where
  "typeofObject JNull = True"
| "typeofObject (JDate d) = True"
| "typeofObject (JArr xs) = True"
| "typeofObject (JObj es) = True"
| "typeofObject (JBool b) = False"
| "typeofObject (JNum n) = False"
| "typeofObject (JNumText t) = False"
| "typeofObject (JStr s) = False"

fun isArray :: "js \<Rightarrow> bool" where
  "isArray (JArr xs) = True"
| "isArray v = False"

text \<open>
  \<open>Object.entries(value)\<close> for a value other than \<open>null\<close> and \<open>undefined\<close>: the
  properties of an object, the indexed elements of an array, the indexed characters of a
  string, nothing for a number, a boolean or a Date.
\<close>

fun ownEntries :: "js \<Rightarrow> (string \<times> js) list" where
  "ownEntries (JObj es) = es"
| "ownEntries (JArr xs) = zip (map natToString [0..<length xs]) xs"
| "ownEntries (JStr s) = zip (map natToString [0..<length s]) (map (\<lambda>c. JStr [c]) s)"
| "ownEntries v = []"

text \<open>\<open>Object.entries\<close> and \<open>Object.keys\<close> throw a TypeError on \<open>null\<close>.\<close>

definition objectEntries :: "js \<Rightarrow> error + (string \<times> js) list" where
  "objectEntries v = (if v = JNull then Inl TypeError else Inr (ownEntries v))"

definition objectKeys :: "js \<Rightarrow> error + string list" where
  "objectKeys v = (if v = JNull then Inl TypeError else Inr (map fst (ownEntries v)))"

text \<open>
  The elements of an array value (\<open>...value\<close>, \<open>value.forEach\<close>); the functions below
  use it on arrays only.
\<close>

fun elements :: "js \<Rightarrow> js list" where
  "elements (JArr xs) = xs"
| "elements v = []"

text \<open>
  The two tests of the reference extraction: a non-empty plain object
  (\<open>typeof value === 'object' && value !== null && !Array.isArray(value) &&
  Object.keys(value).length > 0\<close>) and an array whose first element is an object
  (\<open>Array.isArray(value) && value.length > 0 && typeof value[0] === 'object' &&
  value[0] !== null\<close>).
\<close>

definition isNonEmptyObject :: "js \<Rightarrow> bool" where
  "isNonEmptyObject v =
     (typeofObject v \<and> v \<noteq> JNull \<and> \<not> isArray v \<and> length (map fst (ownEntries v)) > 0)"

definition isArrayOfObjects :: "js \<Rightarrow> bool" where
  "isArrayOfObjects v =
     (isArray v \<and> length (elements v) > 0 \<and> typeofObject (hd (elements v))
      \<and> hd (elements v) \<noteq> JNull)"

subsection \<open>Property assignment\<close>

text \<open>
  \<open>obj[k] = v\<close> on an object the code created with \<open>{}\<close>. An existing own property
  keeps its place; a new property whose name is an array index (the canonical decimal
  form of an integer below \<open>2^32 - 1\<close>) is enumerated in ascending numeric order before
  every other name; any other new property comes last. The name \<open>__proto__\<close> reaches the
  inherited setter and creates no own property.
\<close>

definition digitVal :: "char \<Rightarrow> nat" where
  "digitVal c = (case map_of (zip ''0123456789'' [0, 1, 2, 3, 4, 5, 6, 7, 8, 9]) c of Some d \<Rightarrow> d | None \<Rightarrow> 0)"

definition parseNat :: "string \<Rightarrow> nat" where
  "parseNat k = foldl (\<lambda>a c. 10 * a + digitVal c) 0 k"

definition isArrayIndex :: "string \<Rightarrow> bool" where
  "isArrayIndex k = (k = natToString (parseNat k) \<and> parseNat k < 4294967295)"

fun replaceValue :: "string \<Rightarrow> 'a \<Rightarrow> (string \<times> 'a) list \<Rightarrow> (string \<times> 'a) list" where
  "replaceValue k v [] = []"
| "replaceValue k v ((k', v') # rest) =
     (if k' = k then (k, v) # rest else (k', v') # replaceValue k v rest)"

fun insertIndexed :: "string \<Rightarrow> 'a \<Rightarrow> (string \<times> 'a) list \<Rightarrow> (string \<times> 'a) list" where
  "insertIndexed k v [] = [(k, v)]"
| "insertIndexed k v ((k', v') # rest) =
     (if isArrayIndex k' \<and> parseNat k' < parseNat k then (k', v') # insertIndexed k v rest
      else (k, v) # (k', v') # rest)"

definition jsSet :: "string \<Rightarrow> 'a \<Rightarrow> (string \<times> 'a) list \<Rightarrow> (string \<times> 'a) list" where
  "jsSet k v obj =
     (if k = ''__proto__'' then obj
      else if k \<in> set (map fst obj) then replaceValue k v obj
      else if isArrayIndex k then insertIndexed k v obj
      else obj @ [(k, v)])"

text \<open>\<open>Object.assign(target, source)\<close>: the properties of the source, assigned in order.\<close>

definition objectAssign :: "(string \<times> 'a) list \<Rightarrow> (string \<times> 'a) list \<Rightarrow> (string \<times> 'a) list" where
  "objectAssign target source = foldl (\<lambda>t (k, v). jsSet k v t) target source"

section \<open>Document transformer\<close>

subsection \<open>Flattening\<close>

text \<open>
  A measure for the recursions over a value: it counts the entries that
  \<open>Object.entries\<close> can reach through objects and arrays.
\<close>

fun weight :: "js \<Rightarrow> nat" where
  "weight (JArr xs) = sum_list (map (\<lambda>x. weight x + length (ownEntries x) + 1) xs)"
| "weight (JObj es) = sum_list (map (\<lambda>(k, v). weight v + 1) es)"
| "weight v = 0"

text \<open>
  \<open>flattenObject(obj, prefix)\<close>, the same function in the four modules but for the
  separator: \<open>.\<close> in mongodbGenerator.js, \<open>_\<close> in the other three. \<open>flattenEntries\<close> is
  the loop over \<open>Object.entries(obj)\<close> with the object \<open>flattened\<close> built so far; a
  prefix is used when it is a non-empty string.
\<close>

function flattenEntries ::
  "string \<Rightarrow> (string \<times> js) list \<Rightarrow> string \<Rightarrow> (string \<times> js) list \<Rightarrow> (string \<times> js) list" where
  "flattenEntries sep [] prefix flattened = flattened"
| "flattenEntries sep ((key, value) # rest) prefix flattened =
     (let newKey = (if prefix \<noteq> [] then prefix @ sep @ key else key) in
      flattenEntries sep rest prefix
        (if typeofObject value \<and> value \<noteq> JNull \<and> \<not> isArray value
         then objectAssign flattened (flattenEntries sep (ownEntries value) newKey [])
         else jsSet newKey value flattened))"
  by pat_completeness auto
termination
proof (relation "measure (\<lambda>(sep, es, prefix, fl). sum_list (map (\<lambda>v. weight v + 1) (map snd es)))",
    goal_cases)
  case 1
  show ?case by simp
next
  case (2 sep key "value" rest prefix flattened x)
  then show ?case
    by (cases "value") (simp_all add: comp_def case_prod_unfold)
next
  case (3 sep key "value" rest prefix flattened x)
  show ?case by simp
qed

definition flattenObject :: "string \<Rightarrow> js \<Rightarrow> string \<Rightarrow> error + (string \<times> js) list" where
  "flattenObject sep obj prefix =
     (case objectEntries obj of
        Inl e \<Rightarrow> Inl e
      | Inr es \<Rightarrow> Inr (flattenEntries sep es prefix []))"

definition mongo_flattenObject :: "js \<Rightarrow> error + (string \<times> js) list" where
  "mongo_flattenObject obj = flattenObject ''.'' obj []"

definition firebase_flattenObject :: "js \<Rightarrow> error + (string \<times> js) list" where
  "firebase_flattenObject obj = flattenObject ''_'' obj []"

definition dynamo_flattenObject :: "js \<Rightarrow> error + (string \<times> js) list" where
  "dynamo_flattenObject obj = flattenObject ''_'' obj []"

definition couch_flattenObject :: "js \<Rightarrow> error + (string \<times> js) list" where
  "couch_flattenObject obj = flattenObject ''_'' obj []"

subsection \<open>Reference extraction\<close>

text \<open>
  The collection map of the References policy: collection name to the items collected
  so far, in the enumeration order of the object \<open>collections\<close>.

  \<open>if (!collections[name]) collections[name] = []; collections[name].push(...)\<close>: an own
  property is an array and takes the values; a name that the fresh object inherits from
  \<open>Object.prototype\<close> reads as a truthy value without \<open>push\<close>, and the call throws;
  any other name gets a new empty array first.

  The map stands for an object whose prototype is \<open>Object.prototype\<close>, as \<open>{}\<close> creates
  it. The MongoDB and the Firebase module first assign the documents under the name of
  the collection, the first key of the root: a root whose first key is \<open>__proto__\<close> would
  replace the prototype by that array, and is outside the model.
\<close>

type_synonym collections = "(string \<times> js list) list"

definition objectPrototypeKeys :: "string list" where
  "objectPrototypeKeys =
     [''constructor'', ''__defineGetter__'', ''__defineSetter__'', ''hasOwnProperty'',
      ''__lookupGetter__'', ''__lookupSetter__'', ''isPrototypeOf'',
      ''propertyIsEnumerable'', ''toString'', ''valueOf'', ''__proto__'',
      ''toLocaleString'']"

definition pushAll :: "string \<Rightarrow> js list \<Rightarrow> collections \<Rightarrow> collections" where
  "pushAll name vals cs = map (\<lambda>(k, xs). if k = name then (k, xs @ vals) else (k, xs)) cs"

definition pushToCollection :: "string \<Rightarrow> js list \<Rightarrow> collections \<Rightarrow> error + collections" where
  "pushToCollection name vals cs =
     (if name \<in> set (map fst cs) then Inr (pushAll name vals cs)
      else if name \<in> set objectPrototypeKeys then Inl TypeError
      else Inr (pushAll name vals (jsSet name [] cs)))"

text \<open>
  \<open>extractReferencedCollections\<close> (mongodbGenerator.js, firebaseGenerator.js),
  \<open>extractEntities\<close> (dynamodbGenerator.js) and \<open>extractReferencedDocTypes\<close>
  (couchdbGenerator.js) are the same two nested loops; they differ in the name under
  which a non-empty object (\<open>nameObj\<close>) and the elements of an array of objects
  (\<open>nameArr\<close>) are collected. \<open>extractItems\<close> is \<open>items.forEach\<close>, \<open>extractFields\<close> is
  the loop over \<open>Object.entries(item)\<close>. Only an array of objects is searched further.
\<close>

function extractItems ::
    "(string \<Rightarrow> string) \<Rightarrow> (string \<Rightarrow> string) \<Rightarrow> js list \<Rightarrow> collections \<Rightarrow> error + collections"
  and extractFields ::
    "(string \<Rightarrow> string) \<Rightarrow> (string \<Rightarrow> string) \<Rightarrow> (string \<times> js) list \<Rightarrow> collections
      \<Rightarrow> error + collections"
where
  "extractItems nameObj nameArr [] cs = Inr cs"
| "extractItems nameObj nameArr (item # items) cs =
     (case objectEntries item of
        Inl e \<Rightarrow> Inl e
      | Inr es \<Rightarrow>
          (case extractFields nameObj nameArr es cs of
             Inl e \<Rightarrow> Inl e
           | Inr cs' \<Rightarrow> extractItems nameObj nameArr items cs'))"
| "extractFields nameObj nameArr [] cs = Inr cs"
| "extractFields nameObj nameArr ((key, value) # rest) cs =
     (case (if isNonEmptyObject value then pushToCollection (nameObj key) [value] cs
            else Inr cs) of
        Inl e \<Rightarrow> Inl e
      | Inr cs1 \<Rightarrow>
          (case (if isArrayOfObjects value
                 then (case pushToCollection (nameArr key) (elements value) cs1 of
                         Inl e \<Rightarrow> Inl e
                       | Inr cs2 \<Rightarrow> extractItems nameObj nameArr (elements value) cs2)
                 else Inr cs1) of
             Inl e \<Rightarrow> Inl e
           | Inr cs3 \<Rightarrow> extractFields nameObj nameArr rest cs3))"
  by pat_completeness auto
termination
proof (relation "measure (\<lambda>x. case x of
          Inl (nameObj, nameArr, items, cs) \<Rightarrow> weight (JArr items)
        | Inr (nameObj, nameArr, es, cs) \<Rightarrow> sum_list (map (\<lambda>v. weight v + 1) (map snd es)))",
    goal_cases)
  case 1
  show ?case by simp
next
  case (2 nameObj nameArr item items cs es)
  have "sum_list (map (\<lambda>v. weight v + 1) (map snd (ownEntries item)))
          \<le> weight item + length (ownEntries item)"
  proof (cases item)
    case (JStr s)
    have "map snd (ownEntries (JStr s)) = map (\<lambda>c. JStr [c]) s"
      by (simp add: map_snd_zip)
    then show ?thesis
      using JStr by (simp add: comp_def sum_list_triv)
  next
    case (JArr xs)
    have "map snd (ownEntries (JArr xs)) = xs"
      by (simp add: map_snd_zip)
    moreover have "sum_list (map (\<lambda>v. weight v + 1) xs)
        \<le> sum_list (map (\<lambda>x. weight x + length (ownEntries x) + 1) xs)"
      by (rule sum_list_mono) simp
    ultimately show ?thesis
      using JArr by simp
  next
    case (JObj es')
    then show ?thesis
      by (simp add: comp_def case_prod_unfold)
  qed simp_all
  moreover have "es = ownEntries item"
    using 2 by (simp add: objectEntries_def split: if_splits)
  ultimately show ?case
    by simp
next
  case (3 nameObj nameArr item items cs es cs')
  show ?case by simp
next
  case (4 nameObj nameArr key "value" rest cs cs1 cs2)
  then show ?case
    by (cases "value") (simp_all add: isArrayOfObjects_def)
next
  case (5 nameObj nameArr key "value" rest cs cs1 cs3)
  show ?case by simp
qed

text \<open>
  The collection names of the four modules, as the extraction functions compute them:
  \<open>key.endsWith('s') ? key : `${key}s`\<close>, \<open>key.charAt(0).toUpperCase() + key.slice(1)\<close>
  and \<open>key.endsWith('s') ? key.slice(0, -1) : key\<close>.
\<close>

definition pluralName :: "string \<Rightarrow> string" where
  "pluralName key = (if endsWith key ''s'' then key else key @ ''s'')"

definition capitalize :: "string \<Rightarrow> string" where
  "capitalize key = (case key of [] \<Rightarrow> [] | c # cs \<Rightarrow> toUpperCaseChar c @ cs)"

definition singular :: "string \<Rightarrow> string" where
  "singular key = (if endsWith key ''s'' then butlast key else key)"

definition mongo_extractReferencedCollections :: "js list \<Rightarrow> collections \<Rightarrow> error + collections" where
  "mongo_extractReferencedCollections items cs = extractItems pluralName pluralName items cs"

definition firebase_extractReferencedCollections :: "js list \<Rightarrow> collections \<Rightarrow> error + collections" where
  "firebase_extractReferencedCollections items cs = extractItems pluralName pluralName items cs"

definition extractEntities :: "js list \<Rightarrow> collections \<Rightarrow> error + collections" where
  "extractEntities items cs = extractItems capitalize (\<lambda>key. singular (capitalize key)) items cs"

definition extractReferencedDocTypes :: "js list \<Rightarrow> collections \<Rightarrow> error + collections" where
  "extractReferencedDocTypes items cs = extractItems (\<lambda>key. key) singular items cs"

section \<open>Index advisor\<close>

text \<open>
  The first half of \<open>generateIndexSuggestions\<close>, word for word the same in the four
  modules: the list \<open>indexFields\<close>. Only a non-empty array is sampled, by its first
  element; each of the three tests pushes the key on its own.
\<close>

definition matchesDatePattern :: "string \<Rightarrow> bool" where
  "matchesDatePattern s =
     (case take 10 s of
        [a, b, c, d, e, f, g, h, i, j] \<Rightarrow>
          isDigit a \<and> isDigit b \<and> isDigit c \<and> isDigit d \<and> e = CHR ''-'' \<and>
          isDigit f \<and> isDigit g \<and> h = CHR ''-'' \<and> isDigit i \<and> isDigit j
      | _ \<Rightarrow> False)"

definition isIdField :: "string \<Rightarrow> bool" where
  "isIdField key =
     (includesStr (toLowerCase key) ''id'' \<or> endsWith (toLowerCase key) ''_id'')"

definition isDateField :: "string \<Rightarrow> js \<Rightarrow> bool" where
  "isDateField key v =
     ((case v of JStr s \<Rightarrow> matchesDatePattern s | _ \<Rightarrow> False) \<or>
      (case v of JDate d \<Rightarrow> True | _ \<Rightarrow> False) \<or>
      includesStr (toLowerCase key) ''date'' \<or>
      includesStr (toLowerCase key) ''time'')"

definition isNameField :: "string \<Rightarrow> bool" where
  "isNameField key =
     (includesStr (toLowerCase key) ''name'' \<or>
      includesStr (toLowerCase key) ''email'' \<or>
      includesStr (toLowerCase key) ''username'')"

fun indexFieldsOf :: "(string \<times> js) list \<Rightarrow> string list" where
  "indexFieldsOf [] = []"
| "indexFieldsOf ((key, value) # rest) =
     (if isIdField key then [key] else []) @
     (if isDateField key value then [key] else []) @
     (if isNameField key then [key] else []) @
     indexFieldsOf rest"

definition indexFields :: "js \<Rightarrow> error + string list" where
  "indexFields jsonData =
     (case jsonData of
        JArr (sampleItem # others) \<Rightarrow>
          (case objectEntries sampleItem of
             Inl e \<Rightarrow> Inl e
           | Inr es \<Rightarrow> Inr (indexFieldsOf es))
      | _ \<Rightarrow> Inr [])"

section \<open>Ambient inputs and generated text\<close>

text \<open>
  \<open>generateId\<close> (utils.js) draws random numbers and \<open>new Date()\<close> reads the clock. Both
  are inputs of the model: \<open>genId A short n\<close> is the identifier and \<open>isoNow A n\<close> the
  ISO-8601 instant that the \<open>n\<close>-th ambient read of a run returns. A generator is a
  function of the number of reads made so far; it throws (\<open>Inl\<close>) or returns its text
  with the new count. The statements \<open>result += ...\<close> of a generator become the list given
  to \<open>seqG\<close>, and \<open>forEach\<close> with its index becomes \<open>forEachG\<close>; a throw discards the text
  built so far, as the exception does.
\<close>

record ambient =
  genId :: "bool \<Rightarrow> nat \<Rightarrow> string"
  isoNow :: "nat \<Rightarrow> string"

type_synonym 'a gen = "nat \<Rightarrow> error + ('a \<times> nat)"

definition retG :: "'a \<Rightarrow> 'a gen" where
  "retG x w = Inr (x, w)"

definition bindG :: "'a gen \<Rightarrow> ('a \<Rightarrow> 'b gen) \<Rightarrow> 'b gen" where
  "bindG m f w = (case m w of Inl e \<Rightarrow> Inl e | Inr (x, w') \<Rightarrow> f x w')"

definition liftG :: "error + 'a \<Rightarrow> 'a gen" where
  "liftG r w = (case r of Inl e \<Rightarrow> Inl e | Inr x \<Rightarrow> Inr (x, w))"

definition emit :: "string \<Rightarrow> string gen" where
  "emit s = retG s"

definition whenG :: "bool \<Rightarrow> string gen \<Rightarrow> string gen" where
  "whenG b m = (if b then m else retG [])"

fun seqG :: "string gen list \<Rightarrow> string gen" where
  "seqG [] = retG []"
| "seqG (m # ms) = bindG m (\<lambda>s. bindG (seqG ms) (\<lambda>t. retG (s @ t)))"

definition forEachG :: "('a \<Rightarrow> nat \<Rightarrow> string gen) \<Rightarrow> 'a list \<Rightarrow> string gen" where
  "forEachG f xs = seqG (map (\<lambda>(i, x). f x i) (enumerate 0 xs))"

definition generateId :: "ambient \<Rightarrow> bool \<Rightarrow> string gen" where
  "generateId A short w = Inr (genId A short w, Suc w)"

definition nowISO :: "ambient \<Rightarrow> string gen" where
  "nowISO A w = Inr (isoNow A w, Suc w)"

text \<open>
  The options object. \<open>addIds\<close>, \<open>addTimestamps\<close>, \<open>addIndexes\<close>, \<open>dbName\<close> and
  \<open>sortKey\<close> are the properties the modules read; \<open>tableName\<close> and \<open>collectionName\<close>
  are the other two names of the interface. An absent property is \<open>None\<close>;
  \<open>options.x || d\<close> and \<open>if (options.x)\<close> take the empty string as absent too.
\<close>

record options =
  addIds :: bool
  addTimestamps :: bool
  addIndexes :: bool
  optDbName :: "string option"
  optSortKey :: "string option"
  optTableName :: "string option"
  optCollectionName :: "string option"

fun orDefault :: "string option \<Rightarrow> string \<Rightarrow> string" where
  "orDefault None d = d"
| "orDefault (Some s) d = (if s = [] then d else s)"

text \<open>\<open>Array.isArray(jsonData) ? jsonData : [jsonData]\<close>.\<close>

definition toDataArray :: "js \<Rightarrow> js list" where
  "toDataArray jsonData = (if isArray jsonData then elements jsonData else [jsonData])"

text \<open>
  \<open>Array.isArray(jsonData) ? a : Object.keys(jsonData).length > 0 ? Object.keys(jsonData)[0] : d\<close>,
  the name of the collection or table in three of the modules.
\<close>

definition firstKeyName :: "js \<Rightarrow> string \<Rightarrow> string \<Rightarrow> error + string" where
  "firstKeyName jsonData a d =
     (if isArray jsonData then Inr a
      else (case objectKeys jsonData of
              Inl e \<Rightarrow> Inl e
            | Inr ks \<Rightarrow> Inr (case ks of [] \<Rightarrow> d | k # rest \<Rightarrow> k)))"

text \<open>The comma after every entry but the last: \<open>i < n - 1 ? ',' : ''\<close>.\<close>

definition commaUnlessLast :: "nat \<Rightarrow> nat \<Rightarrow> string" where
  "commaUnlessLast i n = (if i + 1 < n then '','' else [])"

section \<open>The MongoDB generator\<close>

definition mongo_ids :: "ambient \<Rightarrow> options \<Rightarrow> string \<Rightarrow> string gen" where
  \<open>mongo_ids A opts indent =
     whenG (addIds opts)
       (bindG (generateId A False) (\<lambda>i. emit (indent @ ''_id: ObjectId("'' @ i @ ''"),\<newline>'')))\<close>

definition mongo_timestamps :: "ambient \<Rightarrow> options \<Rightarrow> string \<Rightarrow> string gen" where
  \<open>mongo_timestamps A opts indent =
     whenG (addTimestamps opts)
       (bindG (nowISO A) (\<lambda>now. emit
          (indent @ ''createdAt: ISODate("'' @ now @ ''"),\<newline>'' @
           indent @ ''updatedAt: ISODate("'' @ now @ ''"),\<newline>'')))\<close>

definition mongo_fields :: "string \<Rightarrow> (string \<times> js) list \<Rightarrow> string gen" where
  "mongo_fields indent es =
     forEachG (\<lambda>(key, value) i. emit
        (indent @ key @ '': '' @ mongoValueToString value @ commaUnlessLast i (length es) @
         ''\<newline>'')) es"

definition mongo_generateNestedDocuments :: "ambient \<Rightarrow> js \<Rightarrow> string \<Rightarrow> options \<Rightarrow> string gen" where
  "mongo_generateNestedDocuments A jsonData collectionName opts =
     (let dataArray = toDataArray jsonData in
      seqG
       [emit ''// Nested document structure\<newline>'',
        emit (''db.'' @ collectionName @ ''.insertMany([\<newline>''),
        forEachG (\<lambda>item index. seqG
           [emit ''  {\<newline>'',
            mongo_ids A opts ''    '',
            mongo_timestamps A opts ''    '',
            bindG (liftG (objectEntries item)) (mongo_fields ''    ''),
            emit (''  }'' @ commaUnlessLast index (length dataArray) @ ''\<newline>'')]) dataArray,
        emit '']);\<newline>\<newline>''])"

definition mongo_generateFlatDocuments :: "ambient \<Rightarrow> js \<Rightarrow> string \<Rightarrow> options \<Rightarrow> string gen" where
  "mongo_generateFlatDocuments A jsonData collectionName opts =
     (let dataArray = toDataArray jsonData in
      seqG
       [emit ''// Flat document structure\<newline>'',
        emit (''db.'' @ collectionName @ ''.insertMany([\<newline>''),
        forEachG (\<lambda>item index. seqG
           [emit ''  {\<newline>'',
            mongo_ids A opts ''    '',
            mongo_timestamps A opts ''    '',
            bindG (liftG (mongo_flattenObject item)) (mongo_fields ''    ''),
            emit (''  }'' @ commaUnlessLast index (length dataArray) @ ''\<newline>'')]) dataArray,
        emit '']);\<newline>\<newline>''])"

definition mongo_refFields :: "ambient \<Rightarrow> (string \<times> js) list \<Rightarrow> string gen" where
  \<open>mongo_refFields A es =
     forEachG (\<lambda>(key, value) i.
        if isNonEmptyObject value
        then bindG (generateId A False)
               (\<lambda>r. emit (''    '' @ key @ ''Ref: ObjectId("'' @ r @ ''"),\<newline>''))
        else emit (''    '' @ key @ '': '' @ mongoValueToString value @
                   commaUnlessLast i (length es) @ ''\<newline>'')) es\<close>

definition mongo_generateReferencedDocuments :: "ambient \<Rightarrow> js \<Rightarrow> string \<Rightarrow> options \<Rightarrow> string gen" where
  "mongo_generateReferencedDocuments A jsonData collectionName opts =
     bindG (liftG (mongo_extractReferencedCollections (toDataArray jsonData)
                     (jsSet collectionName (toDataArray jsonData) [])))
       (\<lambda>collections. seqG
         [emit ''// Referenced document structure\<newline>'',
          forEachG (\<lambda>(collection, items) ci. seqG
            [emit (''// Collection: '' @ collection @ ''\<newline>''),
             emit (''db.'' @ collection @ ''.insertMany([\<newline>''),
             forEachG (\<lambda>item index. seqG
               [emit ''  {\<newline>'',
                mongo_ids A opts ''    '',
                mongo_timestamps A opts ''    '',
                bindG (liftG (objectEntries item)) (mongo_refFields A),
                emit (''  }'' @ commaUnlessLast index (length items) @ ''\<newline>'')]) items,
             emit '']);\<newline>\<newline>'']) collections])"

definition mongo_generateArrayBasedDocuments :: "ambient \<Rightarrow> js \<Rightarrow> string \<Rightarrow> options \<Rightarrow> string gen" where
  "mongo_generateArrayBasedDocuments A jsonData collectionName opts =
     (let dataArray = toDataArray jsonData in
      seqG
       [emit ''// Array-based document structure\<newline>'',
        emit (''db.'' @ collectionName @ ''.insertOne({\<newline>''),
        mongo_ids A opts ''  '',
        mongo_timestamps A opts ''  '',
        emit ''  items: [\<newline>'',
        forEachG (\<lambda>item index. seqG
           [emit ''    {\<newline>'',
            mongo_ids A opts ''      '',
            bindG (liftG (objectEntries item)) (mongo_fields ''      ''),
            emit (''    }'' @ commaUnlessLast index (length dataArray) @ ''\<newline>'')]) dataArray,
        emit ''  ]\<newline>'',
        emit ''});\<newline>\<newline>''])"

definition mongo_generateIndexSuggestions :: "js \<Rightarrow> string \<Rightarrow> error + string" where
  \<open>mongo_generateIndexSuggestions jsonData collectionName =
     (case indexFields jsonData of
        Inl e \<Rightarrow> Inl e
      | Inr ixs \<Rightarrow> Inr
         (''// Index Suggestions\<newline>'' @
          (if length ixs > 0
           then concat (map (\<lambda>field. ''db.'' @ collectionName @ ''.createIndex({ '' @ field @
                   '': 1 }, { name: "'' @ field @ ''_index" });\<newline>'') ixs) @
                (if length ixs > 1
                 then ''\<newline>// Compound Index Suggestion\<newline>'' @
                      ''db.'' @ collectionName @ ''.createIndex({ '' @
                      concat (map (\<lambda>(index, field). field @ '': 1'' @
                                (if index < 1 then '', '' else []))
                              (enumerate 0 (take 2 ixs))) @
                      '' }, { name: "compound_index" });\<newline>''
                 else [])
           else ''// No obvious index candidates found in this data structure\<newline>'')))\<close>

definition generateMongoDBDocuments :: "ambient \<Rightarrow> js \<Rightarrow> string \<Rightarrow> options \<Rightarrow> string gen" where
  "generateMongoDBDocuments A jsonData structure opts =
     bindG (liftG (firstKeyName jsonData ''items'' ''collection'')) (\<lambda>collectionName. seqG
       [emit ''// MongoDB Shell Commands\<newline>'',
        emit ''// Run these commands in MongoDB shell or MongoDB Compass\<newline>\<newline>'',
        emit (''use '' @ orDefault (optDbName opts) ''nosql_generator_db'' @ '';\<newline>\<newline>''),
        (if structure = ''nested'' then mongo_generateNestedDocuments A jsonData collectionName opts
         else if structure = ''flat'' then mongo_generateFlatDocuments A jsonData collectionName opts
         else if structure = ''references''
           then mongo_generateReferencedDocuments A jsonData collectionName opts
         else if structure = ''arrays''
           then mongo_generateArrayBasedDocuments A jsonData collectionName opts
         else mongo_generateNestedDocuments A jsonData collectionName opts),
        whenG (addIndexes opts) (liftG (mongo_generateIndexSuggestions jsonData collectionName))])"

section \<open>The Firebase generator\<close>

text \<open>\<open>${index + 1}\<close> in a template.\<close>

definition ordinal :: "nat \<Rightarrow> string" where
  "ordinal index = natToString (index + 1)"

definition firebase_timestamps :: "options \<Rightarrow> string gen" where
  "firebase_timestamps opts =
     whenG (addTimestamps opts)
       (emit (''    createdAt: serverTimestamp(),\<newline>'' @
              ''    updatedAt: serverTimestamp(),\<newline>''))"

definition firebase_fields :: "string \<Rightarrow> (string \<times> js) list \<Rightarrow> string gen" where
  "firebase_fields indent es =
     forEachG (\<lambda>(key, value) i. emit
        (indent @ key @ '': '' @ firebaseValueToString value @ commaUnlessLast i (length es) @
         ''\<newline>'')) es"

definition firebase_docOpen :: "ambient \<Rightarrow> options \<Rightarrow> nat \<Rightarrow> string gen" where
  \<open>firebase_docOpen A opts index =
     (if addIds opts
      then bindG (generateId A True) (\<lambda>docId. emit
             (''  const docRef'' @ ordinal index @ '' = doc(collectionRef, "'' @ docId @
              ''");\<newline>'' @
              ''  await setDoc(docRef'' @ ordinal index @ '', {\<newline>''))
      else emit ''  await addDoc(collectionRef, {\<newline>'')\<close>

definition firebase_generateNestedDocuments :: "ambient \<Rightarrow> js \<Rightarrow> string \<Rightarrow> options \<Rightarrow> string gen" where
  \<open>firebase_generateNestedDocuments A jsonData collectionName opts =
     (let dataArray = toDataArray jsonData in
      seqG
       [emit ''// Nested document structure\<newline>'',
        emit ''// Function to add documents to Firestore\<newline>'',
        emit ''async function addNestedDocuments() {\<newline>'',
        emit (''  const collectionRef = collection(db, "'' @ collectionName @ ''");\<newline>\<newline>''),
        forEachG (\<lambda>item index. seqG
           [emit (''  // Document '' @ ordinal index @ ''\<newline>''),
            firebase_docOpen A opts index,
            firebase_timestamps opts,
            bindG (liftG (objectEntries item)) (firebase_fields ''    ''),
            emit ''  });\<newline>\<newline>'']) dataArray,
        emit (''  console.log("'' @ natToString (length dataArray) @ '' documents added to '' @
              collectionName @ '' collection");\<newline>''),
        emit ''}\<newline>\<newline>''])\<close>

definition firebase_generateFlatDocuments :: "ambient \<Rightarrow> js \<Rightarrow> string \<Rightarrow> options \<Rightarrow> string gen" where
  \<open>firebase_generateFlatDocuments A jsonData collectionName opts =
     (let dataArray = toDataArray jsonData in
      seqG
       [emit ''// Flat document structure\<newline>'',
        emit ''// Function to add flat documents to Firestore\<newline>'',
        emit ''async function addFlatDocuments() {\<newline>'',
        emit (''  const collectionRef = collection(db, "'' @ collectionName @ ''");\<newline>\<newline>''),
        forEachG (\<lambda>item index.
           bindG (liftG (firebase_flattenObject item)) (\<lambda>flattenedObject. seqG
             [emit (''  // Document '' @ ordinal index @ ''\<newline>''),
              firebase_docOpen A opts index,
              firebase_timestamps opts,
              firebase_fields ''    '' flattenedObject,
              emit ''  });\<newline>\<newline>''])) dataArray,
        emit (''  console.log("'' @ natToString (length dataArray) @
              '' flat documents added to '' @ collectionName @ '' collection");\<newline>''),
        emit ''}\<newline>\<newline>''])\<close>

definition firebase_refFields :: "ambient \<Rightarrow> (string \<times> js) list \<Rightarrow> string gen" where
  \<open>firebase_refFields A es =
     forEachG (\<lambda>(key, value) i.
        if isNonEmptyObject value
        then bindG (generateId A True)
               (\<lambda>r. emit (''    '' @ key @ ''Ref: doc(db, "'' @ key @ ''s", "'' @ r @ ''"),\<newline>''))
        else emit (''    '' @ key @ '': '' @ firebaseValueToString value @
                   commaUnlessLast i (length es) @ ''\<newline>'')) es\<close>

definition firebase_generateReferencedDocuments :: "ambient \<Rightarrow> js \<Rightarrow> string \<Rightarrow> options \<Rightarrow> string gen" where
  \<open>firebase_generateReferencedDocuments A jsonData collectionName opts =
     bindG (liftG (firebase_extractReferencedCollections (toDataArray jsonData)
                     (jsSet collectionName (toDataArray jsonData) [])))
       (\<lambda>collections. seqG
         [emit ''// Referenced document structure\<newline>'',
          emit ''// Function to add documents with references to Firestore\<newline>'',
          emit ''async function addReferencedDocuments() {\<newline>'',
          forEachG (\<lambda>(collection, items) ci. seqG
            [emit (''  // Collection: '' @ collection @ ''\<newline>''),
             emit (''  const '' @ collection @ ''Ref = collection(db, "'' @ collection @
                   ''");\<newline>\<newline>''),
             forEachG (\<lambda>item index. seqG
               [emit (''  // '' @ collection @ '' document '' @ ordinal index @ ''\<newline>''),
                (if addIds opts
                 then bindG (generateId A True) (\<lambda>docId. emit
                        (''  const '' @ collection @ ''Doc'' @ ordinal index @ '' = doc('' @
                         collection @ ''Ref, "'' @ docId @ ''");\<newline>'' @
                         ''  await setDoc('' @ collection @ ''Doc'' @ ordinal index @
                         '', {\<newline>''))
                 else emit (''  const '' @ collection @ ''Doc'' @ ordinal index @
                            '' = await addDoc('' @ collection @ ''Ref, {\<newline>'')),
                firebase_timestamps opts,
                bindG (liftG (objectEntries item)) (firebase_refFields A),
                emit ''  });\<newline>\<newline>'']) items]) collections,
          emit ''  console.log("Referenced documents added to Firestore");\<newline>'',
          emit ''}\<newline>\<newline>''])\<close>

definition firebase_generateArrayBasedDocuments :: "ambient \<Rightarrow> js \<Rightarrow> string \<Rightarrow> options \<Rightarrow> string gen" where
  \<open>firebase_generateArrayBasedDocuments A jsonData collectionName opts =
     (let dataArray = toDataArray jsonData in
      seqG
       [emit ''// Array-based document structure\<newline>'',
        emit ''// Function to add array-based document to Firestore\<newline>'',
        emit ''async function addArrayBasedDocument() {\<newline>'',
        emit (''  const collectionRef = collection(db, "'' @ collectionName @ ''");\<newline>\<newline>''),
        emit ''  // Create a single document with items array\<newline>'',
        (if addIds opts
         then bindG (generateId A True) (\<lambda>docId. emit
                (''  const docRef = doc(collectionRef, "'' @ docId @ ''");\<newline>'' @
                 ''  await setDoc(docRef, {\<newline>''))
         else emit ''  await addDoc(collectionRef, {\<newline>''),
        firebase_timestamps opts,
        emit ''    items: [\<newline>'',
        forEachG (\<lambda>item index. seqG
           [emit ''      {\<newline>'',
            whenG (addIds opts)
              (bindG (generateId A True) (\<lambda>i. emit (''        id: "'' @ i @ ''",\<newline>''))),
            bindG (liftG (objectEntries item)) (firebase_fields ''        ''),
            emit (''      }'' @ commaUnlessLast index (length dataArray) @ ''\<newline>'')]) dataArray,
        emit ''    ]\<newline>'',
        emit ''  });\<newline>\<newline>'',
        emit (''  console.log("Array-based document added to '' @ collectionName @
              '' collection");\<newline>''),
        emit ''}\<newline>\<newline>''])\<close>

definition firebase_generateIndexSuggestions :: "js \<Rightarrow> string \<Rightarrow> error + string" where
  "firebase_generateIndexSuggestions jsonData collectionName =
     (case indexFields jsonData of
        Inl e \<Rightarrow> Inl e
      | Inr ixs \<Rightarrow> Inr
         (''// Index Suggestions for Firebase\<newline>'' @
          ''// Add these indexes in the Firebase console or using the Firebase CLI\<newline>\<newline>'' @
          (if length ixs > 0
           then ''// Firebase indexes for collection: '' @ collectionName @ ''\<newline>'' @
                ''/*\<newline>'' @
                concat (map (\<lambda>field. ''  Field: '' @ field @ '', Order: ASCENDING\<newline>'') ixs) @
                (if length ixs > 1
                 then ''\<newline>  // Compound index suggestion:\<newline>'' @
                      concat (map (\<lambda>field. ''  Field: '' @ field @ '', Order: ASCENDING\<newline>'')
                                (take 2 ixs))
                 else []) @
                ''*/\<newline>\<newline>'' @
                ''// Firebase CLI command example:\<newline>'' @
                ''// firebase firestore:indexes --project your-project-id\<newline>\<newline>''
           else ''// No obvious index candidates found in this data structure\<newline>\<newline>'')))"

definition generateFirebaseDocuments :: "ambient \<Rightarrow> js \<Rightarrow> string \<Rightarrow> options \<Rightarrow> string gen" where
  \<open>generateFirebaseDocuments A jsonData structure opts =
     bindG (liftG (firstKeyName jsonData ''items'' ''collection'')) (\<lambda>collectionName. seqG
       [emit ''// Firebase Firestore Code\<newline>'',
        emit ''// Requires Firebase SDK to be initialized in your project\<newline>\<newline>'',
        emit ''// Import Firebase modules\<newline>'',
        emit (''import { getFirestore, collection, doc, setDoc, addDoc, serverTimestamp } '' @
              ''from "firebase/firestore";\<newline>\<newline>''),
        emit ''// Get Firestore instance\<newline>'',
        emit ''const db = getFirestore();\<newline>\<newline>'',
        (if structure = ''nested''
           then firebase_generateNestedDocuments A jsonData collectionName opts
         else if structure = ''flat''
           then firebase_generateFlatDocuments A jsonData collectionName opts
         else if structure = ''references''
           then firebase_generateReferencedDocuments A jsonData collectionName opts
         else if structure = ''arrays''
           then firebase_generateArrayBasedDocuments A jsonData collectionName opts
         else firebase_generateNestedDocuments A jsonData collectionName opts),
        whenG (addIndexes opts)
          (liftG (firebase_generateIndexSuggestions jsonData collectionName))])\<close>

section \<open>The DynamoDB generator\<close>

text \<open>
  The primary key, the optional sort key and the timestamps of an item; every
  \<open>new Date()\<close> is a clock read of its own.
\<close>

definition dynamo_keys :: "ambient \<Rightarrow> options \<Rightarrow> string \<Rightarrow> nat \<Rightarrow> string gen" where
  \<open>dynamo_keys A opts indent index = seqG
     [(if addIds opts
       then bindG (generateId A True) (\<lambda>i. emit (indent @ ''id: "'' @ i @ ''",\<newline>''))
       else emit (indent @ ''id: "'' @ ordinal index @ ''",\<newline>'')),
      (case optSortKey opts of
         None \<Rightarrow> retG []
       | Some sortKey \<Rightarrow>
           whenG (sortKey \<noteq> [])
             (bindG (nowISO A) (\<lambda>now. emit (indent @ sortKey @ '': "'' @ now @ ''",\<newline>'')))),
      whenG (addTimestamps opts)
        (bindG (nowISO A) (\<lambda>created. bindG (nowISO A) (\<lambda>updated. emit
           (indent @ ''createdAt: "'' @ created @ ''",\<newline>'' @
            indent @ ''updatedAt: "'' @ updated @ ''",\<newline>''))))]\<close>

definition dynamo_fields :: "string \<Rightarrow> (string \<times> js) list \<Rightarrow> string gen" where
  "dynamo_fields indent es =
     forEachG (\<lambda>(key, value) i. emit
        (indent @ key @ '': '' @ dynamoValueToString value @ '',\<newline>'')) es"

definition dynamo_generateNestedDocuments :: "ambient \<Rightarrow> js \<Rightarrow> string \<Rightarrow> options \<Rightarrow> string gen" where
  \<open>dynamo_generateNestedDocuments A jsonData tableName opts =
     (let dataArray = toDataArray jsonData in
      if length dataArray \<le> 25
      then seqG
       [emit ''// Nested document structure\<newline>'',
        emit ''// Function to add items using BatchWriteCommand\<newline>'',
        emit ''async function addNestedItems() {\<newline>'',
        emit ''  const items = [];\<newline>\<newline>'',
        forEachG (\<lambda>item index. seqG
           [emit (''  // Item '' @ ordinal index @ ''\<newline>''),
            emit ''  items.push({\<newline>'',
            emit ''    PutRequest: {\<newline>'',
            emit ''      Item: {\<newline>'',
            dynamo_keys A opts ''        '' index,
            bindG (liftG (objectEntries item)) (dynamo_fields ''        ''),
            emit ''      }\<newline>'',
            emit ''    }\<newline>'',
            emit ''  });\<newline>\<newline>'']) dataArray,
        emit ''  const command = new BatchWriteCommand({\<newline>'',
        emit ''    RequestItems: {\<newline>'',
        emit (''      "'' @ tableName @ ''": items\<newline>''),
        emit ''    }\<newline>'',
        emit ''  });\<newline>\<newline>'',
        emit ''  try {\<newline>'',
        emit ''    const response = await docClient.send(command);\<newline>'',
        emit (''    console.log("Success - items added to '' @ tableName @ ''");\<newline>''),
        emit ''    return response;\<newline>'',
        emit ''  } catch (err) {\<newline>'',
        emit ''    console.error("Error:", err);\<newline>'',
        emit ''  }\<newline>'',
        emit ''}\<newline>\<newline>'']
      else seqG
       [emit ''// Nested document structure\<newline>'',
        emit ''// Function to add items using individual PutCommand\<newline>'',
        emit ''async function addNestedItems() {\<newline>'',
        emit ''  try {\<newline>'',
        forEachG (\<lambda>item index. seqG
           [emit (''    // Item '' @ ordinal index @ ''\<newline>''),
            emit ''    await docClient.send(\<newline>'',
            emit ''      new PutCommand({\<newline>'',
            emit (''        TableName: "'' @ tableName @ ''",\<newline>''),
            emit ''        Item: {\<newline>'',
            dynamo_keys A opts ''          '' index,
            bindG (liftG (objectEntries item)) (dynamo_fields ''          ''),
            emit ''        }\<newline>'',
            emit ''      })\<newline>'',
            emit ''    );\<newline>\<newline>'']) dataArray,
        emit (''    console.log("Success - '' @ natToString (length dataArray) @
              '' items added to '' @ tableName @ ''");\<newline>''),
        emit ''  } catch (err) {\<newline>'',
        emit ''    console.error("Error:", err);\<newline>'',
        emit ''  }\<newline>'',
        emit ''}\<newline>\<newline>''])\<close>

definition dynamo_generateFlatDocuments :: "ambient \<Rightarrow> js \<Rightarrow> string \<Rightarrow> options \<Rightarrow> string gen" where
  \<open>dynamo_generateFlatDocuments A jsonData tableName opts =
     (let dataArray = toDataArray jsonData in
      seqG
       [emit ''// Flat document structure\<newline>'',
        emit ''// Function to add flattened items\<newline>'',
        emit ''async function addFlatItems() {\<newline>'',
        emit ''  try {\<newline>'',
        forEachG (\<lambda>item index.
           bindG (liftG (dynamo_flattenObject item)) (\<lambda>flattenedObject. seqG
             [emit (''    // Item '' @ ordinal index @ ''\<newline>''),
              emit ''    await docClient.send(\<newline>'',
              emit ''      new PutCommand({\<newline>'',
              emit (''        TableName: "'' @ tableName @ ''",\<newline>''),
              emit ''        Item: {\<newline>'',
              dynamo_keys A opts ''          '' index,
              dynamo_fields ''          '' flattenedObject,
              emit ''        }\<newline>'',
              emit ''      })\<newline>'',
              emit ''    );\<newline>\<newline>''])) dataArray,
        emit (''    console.log("Success - '' @ natToString (length dataArray) @
              '' flat items added to '' @ tableName @ ''");\<newline>''),
        emit ''  } catch (err) {\<newline>'',
        emit ''    console.error("Error:", err);\<newline>'',
        emit ''  }\<newline>'',
        emit ''}\<newline>\<newline>''])\<close>

definition dynamo_refFields :: "ambient \<Rightarrow> (string \<times> js) list \<Rightarrow> string gen" where
  \<open>dynamo_refFields A es =
     forEachG (\<lambda>(key, value) i.
        if isNonEmptyObject value
        then bindG (generateId A True) (\<lambda>refId. emit
               (''          '' @ key @ ''Id: "'' @ refId @ ''",\<newline>'' @
                ''          '' @ key @ ''Type: "'' @ capitalize key @ ''",\<newline>''))
        else emit (''          '' @ key @ '': '' @ dynamoValueToString value @ '',\<newline>'')) es\<close>

definition dynamo_generateReferencedDocuments :: "ambient \<Rightarrow> js \<Rightarrow> string \<Rightarrow> options \<Rightarrow> string gen" where
  \<open>dynamo_generateReferencedDocuments A jsonData tableName opts =
     bindG (liftG (extractEntities (toDataArray jsonData)
                     (jsSet ''Main'' (toDataArray jsonData) [])))
       (\<lambda>entities. seqG
         [emit ''// Referenced document structure using single table design\<newline>'',
          emit ''// This approach uses a single table with different item types\<newline>\<newline>'',
          emit ''// Function to add items with references\<newline>'',
          emit ''async function addReferencedItems() {\<newline>'',
          emit ''  try {\<newline>'',
          forEachG (\<lambda>(entityType, items) ei.
             forEachG (\<lambda>item index.
               bindG (generateId A True) (\<lambda>itemId. seqG
                 [emit (''    // '' @ entityType @ '' item '' @ ordinal index @ ''\<newline>''),
                  emit ''    await docClient.send(\<newline>'',
                  emit ''      new PutCommand({\<newline>'',
                  emit (''        TableName: "'' @ tableName @ ''",\<newline>''),
                  emit ''        Item: {\<newline>'',
                  emit (''          PK: "'' @ entityType @ ''#'' @ itemId @ ''",\<newline>''),
                  emit (''          SK: "'' @ entityType @ ''#'' @ itemId @ ''",\<newline>''),
                  emit (''          type: "'' @ entityType @ ''",\<newline>''),
                  emit (''          id: "'' @ itemId @ ''",\<newline>''),
                  whenG (addTimestamps opts)
                    (bindG (nowISO A) (\<lambda>created. bindG (nowISO A) (\<lambda>updated. emit
                       (''          createdAt: "'' @ created @ ''",\<newline>'' @
                        ''          updatedAt: "'' @ updated @ ''",\<newline>'')))),
                  bindG (liftG (objectEntries item)) (dynamo_refFields A),
                  emit ''        }\<newline>'',
                  emit ''      })\<newline>'',
                  emit ''    );\<newline>\<newline>''])) items) entities,
          whenG (length (map fst entities) > 1)
            (emit (''    // Note: In a real application, you would create relationships\<newline>'' @
                   ''    // between entities using GSIs (Global Secondary Indexes)\<newline>'' @
                   ''    // Example: PK: "Main#123", SK: "RelatedEntity#456"\<newline>\<newline>'')),
          emit (''    console.log("Success - items added to '' @ tableName @
                '' with references");\<newline>''),
          emit ''  } catch (err) {\<newline>'',
          emit ''    console.error("Error:", err);\<newline>'',
          emit ''  }\<newline>'',
          emit ''}\<newline>\<newline>''])\<close>

definition dynamo_generateArrayBasedDocuments :: "ambient \<Rightarrow> js \<Rightarrow> string \<Rightarrow> options \<Rightarrow> string gen" where
  \<open>dynamo_generateArrayBasedDocuments A jsonData tableName opts =
     (let dataArray = toDataArray jsonData in
      seqG
       [emit ''// Array-based document structure\<newline>'',
        emit ''// Function to add a single item with array of sub-items\<newline>'',
        emit ''async function addArrayBasedItem() {\<newline>'',
        emit ''  try {\<newline>'',
        emit ''    // Create a single item with sub-items array\<newline>'',
        emit ''    await docClient.send(\<newline>'',
        emit ''      new PutCommand({\<newline>'',
        emit (''        TableName: "'' @ tableName @ ''",\<newline>''),
        emit ''        Item: {\<newline>'',
        (if addIds opts
         then bindG (generateId A True) (\<lambda>i. emit (''          id: "'' @ i @ ''",\<newline>''))
         else emit ''          id: "main-item",\<newline>''),
        whenG (addTimestamps opts)
          (bindG (nowISO A) (\<lambda>created. bindG (nowISO A) (\<lambda>updated. emit
             (''          createdAt: "'' @ created @ ''",\<newline>'' @
              ''          updatedAt: "'' @ updated @ ''",\<newline>'')))),
        emit ''          items: [\<newline>'',
        forEachG (\<lambda>item index. seqG
           [emit ''            {\<newline>'',
            (if addIds opts
             then bindG (generateId A True)
                    (\<lambda>i. emit (''              id: "'' @ i @ ''",\<newline>''))
             else emit (''              id: "item-'' @ ordinal index @ ''",\<newline>'')),
            bindG (liftG (objectEntries item)) (dynamo_fields ''              ''),
            emit (''            }'' @ commaUnlessLast index (length dataArray) @ ''\<newline>'')])
          dataArray,
        emit ''          ]\<newline>'',
        emit ''        }\<newline>'',
        emit ''      })\<newline>'',
        emit ''    );\<newline>\<newline>'',
        emit (''    console.log("Success - array-based item added to '' @ tableName @
              ''");\<newline>''),
        emit ''  } catch (err) {\<newline>'',
        emit ''    console.error("Error:", err);\<newline>'',
        emit ''  }\<newline>'',
        emit ''}\<newline>\<newline>''])\<close>

text \<open>
  \<open>indexFields[0]\<close> is read only where the list is not empty.
\<close>

definition dynamo_generateIndexSuggestions :: "js \<Rightarrow> string \<Rightarrow> error + string" where
  \<open>dynamo_generateIndexSuggestions jsonData tableName =
     (case indexFields jsonData of
        Inl e \<Rightarrow> Inl e
      | Inr ixs \<Rightarrow> Inr
         (''// DynamoDB Index Suggestions\<newline>'' @
          ''// These are suggestions for Global Secondary Indexes (GSIs)\<newline>\<newline>'' @
          (case ixs of
             first # others \<Rightarrow>
                ''// CloudFormation template snippet for GSIs\<newline>'' @
                ''/*\<newline>'' @
                ''Resources:\<newline>'' @
                ''  '' @ tableName @ ''Table:\<newline>'' @
                ''    Type: AWS::DynamoDB::Table\<newline>'' @
                ''    Properties:\<newline>'' @
                ''      TableName: '' @ tableName @ ''\<newline>'' @
                ''      AttributeDefinitions:\<newline>'' @
                ''        - AttributeName: id\<newline>'' @
                ''          AttributeType: S\<newline>'' @
                concat (map (\<lambda>field.
                   ''        - AttributeName: '' @ field @ ''\<newline>'' @
                   ''          AttributeType: S\<newline>'') ixs) @
                ''      KeySchema:\<newline>'' @
                ''        - AttributeName: id\<newline>'' @
                ''          KeyType: HASH\<newline>'' @
                ''      GlobalSecondaryIndexes:\<newline>'' @
                concat (map (\<lambda>(index, field).
                   ''        - IndexName: '' @ field @ ''Index\<newline>'' @
                   ''          KeySchema:\<newline>'' @
                   ''            - AttributeName: '' @ field @ ''\<newline>'' @
                   ''              KeyType: HASH\<newline>'' @
                   ''          Projection:\<newline>'' @
                   ''            ProjectionType: ALL\<newline>'' @
                   (if index + 1 < length ixs then ''\<newline>'' else []))
                  (enumerate 0 ixs)) @
                ''*/\<newline>\<newline>'' @
                ''// AWS CLI command example:\<newline>'' @
                ''// aws dynamodb update-table '' @ [bsl] @ ''\<newline>'' @
                ''//   --table-name '' @ tableName @ '' '' @ [bsl] @ ''\<newline>'' @
                ''//   --attribute-definitions AttributeName='' @ first @
                '',AttributeType=S '' @ [bsl] @ ''\<newline>'' @
                ''//   --global-secondary-index-updates "[{'' @ [bsl] @ ''"Create'' @ [bsl] @
                ''":{'' @ [bsl] @ ''"IndexName'' @ [bsl] @ ''":'' @ [bsl] @ ''"'' @ first @
                ''Index'' @ [bsl] @ ''",'' @ [bsl] @ ''"KeySchema'' @ [bsl] @ ''":[{'' @ [bsl] @
                ''"AttributeName'' @ [bsl] @ ''":'' @ [bsl] @ ''"'' @ first @ [bsl] @ ''",'' @
                [bsl] @ ''"KeyType'' @ [bsl] @ ''":'' @ [bsl] @ ''"HASH'' @ [bsl] @ ''"}],'' @
                [bsl] @ ''"Projection'' @ [bsl] @ ''":{'' @ [bsl] @ ''"ProjectionType'' @ [bsl] @
                ''":'' @ [bsl] @ ''"ALL'' @ [bsl] @ ''"}}}]"\<newline>\<newline>''
           | [] \<Rightarrow> ''// No obvious index candidates found in this data structure\<newline>\<newline>'')))\<close>

definition generateDynamoDBDocuments :: "ambient \<Rightarrow> js \<Rightarrow> string \<Rightarrow> options \<Rightarrow> string gen" where
  \<open>generateDynamoDBDocuments A jsonData structure opts =
     bindG (liftG (firstKeyName jsonData ''Items'' ''DynamoTable'')) (\<lambda>tableName. seqG
       [emit ''// AWS DynamoDB Code\<newline>'',
        emit ''// Requires AWS SDK to be initialized in your project\<newline>\<newline>'',
        emit ''// Import AWS SDK modules\<newline>'',
        emit ''import { DynamoDBClient } from "@aws-sdk/client-dynamodb";\<newline>'',
        emit (''import { DynamoDBDocumentClient, PutCommand, BatchWriteCommand } '' @
              ''from "@aws-sdk/lib-dynamodb";\<newline>\<newline>''),
        emit ''// Initialize DynamoDB client\<newline>'',
        emit ''const client = new DynamoDBClient({ region: "us-east-1" });\<newline>'',
        emit ''const docClient = DynamoDBDocumentClient.from(client);\<newline>\<newline>'',
        (if structure = ''nested'' then dynamo_generateNestedDocuments A jsonData tableName opts
         else if structure = ''flat'' then dynamo_generateFlatDocuments A jsonData tableName opts
         else if structure = ''references''
           then dynamo_generateReferencedDocuments A jsonData tableName opts
         else if structure = ''arrays''
           then dynamo_generateArrayBasedDocuments A jsonData tableName opts
         else dynamo_generateNestedDocuments A jsonData tableName opts),
        whenG (addIndexes opts) (liftG (dynamo_generateIndexSuggestions jsonData tableName))])\<close>

section \<open>The CouchDB generator\<close>

definition couch_ids :: "ambient \<Rightarrow> options \<Rightarrow> string \<Rightarrow> string gen" where
  \<open>couch_ids A opts indent =
     whenG (addIds opts)
       (bindG (generateId A True) (\<lambda>i. emit (indent @ ''_id: "'' @ i @ ''",\<newline>'')))\<close>

definition couch_timestamps :: "ambient \<Rightarrow> options \<Rightarrow> string \<Rightarrow> string gen" where
  \<open>couch_timestamps A opts indent =
     whenG (addTimestamps opts)
       (bindG (nowISO A) (\<lambda>now. emit
          (indent @ ''createdAt: "'' @ now @ ''",\<newline>'' @
           indent @ ''updatedAt: "'' @ now @ ''",\<newline>'')))\<close>

definition couch_fields :: "string \<Rightarrow> (string \<times> js) list \<Rightarrow> string gen" where
  "couch_fields indent es =
     forEachG (\<lambda>(key, value) i. emit
        (indent @ key @ '': '' @ couchValueToString value @ commaUnlessLast i (length es) @
         ''\<newline>'')) es"

text \<open>
  \<open>const item = dataArray[0]\<close> of the single-document branch: on the empty array the
  item is \<open>undefined\<close>, and \<open>Object.entries(undefined)\<close> throws a TypeError, in
  \<open>generateNestedDocuments\<close> directly and in \<open>generateFlatDocuments\<close> inside
  \<open>flattenObject\<close>.
\<close>

definition entriesOfFirst :: "js list \<Rightarrow> error + (string \<times> js) list" where
  "entriesOfFirst dataArray =
     (case dataArray of [] \<Rightarrow> Inl TypeError | item # others \<Rightarrow> objectEntries item)"

definition flattenFirst :: "js list \<Rightarrow> error + (string \<times> js) list" where
  "flattenFirst dataArray =
     (case dataArray of [] \<Rightarrow> Inl TypeError | item # others \<Rightarrow> couch_flattenObject item)"

definition couch_generateNestedDocuments :: "ambient \<Rightarrow> js \<Rightarrow> options \<Rightarrow> string gen" where
  \<open>couch_generateNestedDocuments A jsonData opts =
     (let dataArray = toDataArray jsonData in
      seqG
       [emit ''// Nested document structure\<newline>'',
        emit ''// Function to add nested documents\<newline>'',
        emit ''async function addNestedDocuments() {\<newline>'',
        (if length dataArray > 1
         then seqG
          [emit ''  // Prepare documents for bulk insert\<newline>'',
           emit ''  const docs = [\<newline>'',
           forEachG (\<lambda>item index. seqG
              [emit ''    {\<newline>'',
               couch_ids A opts ''      '',
               couch_timestamps A opts ''      '',
               bindG (liftG (objectEntries item)) (couch_fields ''      ''),
               emit (''    }'' @ commaUnlessLast index (length dataArray) @ ''\<newline>'')])
             dataArray,
           emit ''  ];\<newline>\<newline>'',
           emit ''  try {\<newline>'',
           emit ''    const response = await db.bulk({ docs });\<newline>'',
           emit (''    console.log("Bulk insert successful:", response.length, '' @
                 ''"documents inserted");\<newline>''),
           emit ''    return response;\<newline>'',
           emit ''  } catch (err) {\<newline>'',
           emit ''    console.error("Error inserting documents:", err);\<newline>'',
           emit ''    throw err;\<newline>'',
           emit ''  }\<newline>'']
         else seqG
          [emit ''  // Prepare document\<newline>'',
           emit ''  const doc = {\<newline>'',
           couch_ids A opts ''    '',
           couch_timestamps A opts ''    '',
           bindG (liftG (entriesOfFirst dataArray)) (couch_fields ''    ''),
           emit ''  };\<newline>\<newline>'',
           emit ''  try {\<newline>'',
           emit ''    const response = await db.insert(doc);\<newline>'',
           emit ''    console.log("Document inserted successfully:", response.id);\<newline>'',
           emit ''    return response;\<newline>'',
           emit ''  } catch (err) {\<newline>'',
           emit ''    console.error("Error inserting document:", err);\<newline>'',
           emit ''    throw err;\<newline>'',
           emit ''  }\<newline>'']),
        emit ''}\<newline>\<newline>''])\<close>

definition couch_generateFlatDocuments :: "ambient \<Rightarrow> js \<Rightarrow> options \<Rightarrow> string gen" where
  \<open>couch_generateFlatDocuments A jsonData opts =
     (let dataArray = toDataArray jsonData in
      seqG
       [emit ''// Flat document structure\<newline>'',
        emit ''// Function to add flat documents\<newline>'',
        emit ''async function addFlatDocuments() {\<newline>'',
        (if length dataArray > 1
         then seqG
          [emit ''  // Prepare documents for bulk insert\<newline>'',
           emit ''  const docs = [\<newline>'',
           forEachG (\<lambda>item index.
              bindG (liftG (couch_flattenObject item)) (\<lambda>flattenedObject. seqG
                [emit ''    {\<newline>'',
                 couch_ids A opts ''      '',
                 couch_timestamps A opts ''      '',
                 couch_fields ''      '' flattenedObject,
                 emit (''    }'' @ commaUnlessLast index (length dataArray) @ ''\<newline>'')]))
             dataArray,
           emit ''  ];\<newline>\<newline>'',
           emit ''  try {\<newline>'',
           emit ''    const response = await db.bulk({ docs });\<newline>'',
           emit (''    console.log("Bulk insert successful:", response.length, '' @
                 ''"flat documents inserted");\<newline>''),
           emit ''    return response;\<newline>'',
           emit ''  } catch (err) {\<newline>'',
           emit ''    console.error("Error inserting flat documents:", err);\<newline>'',
           emit ''    throw err;\<newline>'',
           emit ''  }\<newline>'']
         else bindG (liftG (flattenFirst dataArray)) (\<lambda>flattenedObject. seqG
          [emit ''  // Prepare flat document\<newline>'',
           emit ''  const doc = {\<newline>'',
           couch_ids A opts ''    '',
           couch_timestamps A opts ''    '',
           couch_fields ''    '' flattenedObject,
           emit ''  };\<newline>\<newline>'',
           emit ''  try {\<newline>'',
           emit ''    const response = await db.insert(doc);\<newline>'',
           emit ''    console.log("Flat document inserted successfully:", response.id);\<newline>'',
           emit ''    return response;\<newline>'',
           emit ''  } catch (err) {\<newline>'',
           emit ''    console.error("Error inserting flat document:", err);\<newline>'',
           emit ''    throw err;\<newline>'',
           emit ''  }\<newline>''])),
        emit ''}\<newline>\<newline>''])\<close>

definition couch_refFields :: "ambient \<Rightarrow> (string \<times> js) list \<Rightarrow> string gen" where
  \<open>couch_refFields A es =
     forEachG (\<lambda>(key, value) i.
        if isNonEmptyObject value
        then bindG (generateId A True) (\<lambda>refId. emit
               (''      '' @ key @ ''Id: "'' @ key @ ''_'' @ refId @ ''",\<newline>''))
        else emit (''      '' @ key @ '': '' @ couchValueToString value @
                   commaUnlessLast i (length es) @ ''\<newline>'')) es\<close>

definition couch_generateReferencedDocuments :: "ambient \<Rightarrow> js \<Rightarrow> options \<Rightarrow> string gen" where
  \<open>couch_generateReferencedDocuments A jsonData opts =
     bindG (liftG (extractReferencedDocTypes (toDataArray jsonData)
                     (jsSet ''main'' (toDataArray jsonData) [])))
       (\<lambda>docTypes. seqG
         [emit ''// Referenced document structure\<newline>'',
          emit ''// Function to add documents with references\<newline>'',
          emit ''async function addReferencedDocuments() {\<newline>'',
          forEachG (\<lambda>(docType, items) typeIndex. seqG
            [emit (''  // '' @ docType @ '' documents\<newline>''),
             emit (''  const '' @ docType @ ''Docs = [\<newline>''),
             forEachG (\<lambda>item index. seqG
               [emit ''    {\<newline>'',
                bindG (generateId A True) (\<lambda>docId. emit
                  (''      _id: "'' @ docType @ ''_'' @ docId @ ''",\<newline>'' @
                   ''      type: "'' @ docType @ ''",\<newline>'')),
                couch_timestamps A opts ''      '',
                bindG (liftG (objectEntries item)) (couch_refFields A),
                emit (''    }'' @ commaUnlessLast index (length items) @ ''\<newline>'')]) items,
             emit ''  ];\<newline>\<newline>'']) docTypes,
          emit ''  // Combine all documents for bulk insert\<newline>'',
          emit ''  const allDocs = [\<newline>'',
          emit (''    ...'' @ joinStr ''Docs,\<newline>    ...'' (map fst docTypes) @ ''\<newline>''),
          emit ''  ];\<newline>\<newline>'',
          emit ''  try {\<newline>'',
          emit ''    const response = await db.bulk({ docs: allDocs });\<newline>'',
          emit (''    console.log("Bulk insert successful:", response.length, '' @
                ''"documents with references inserted");\<newline>''),
          emit ''    return response;\<newline>'',
          emit ''  } catch (err) {\<newline>'',
          emit ''    console.error("Error inserting documents with references:", err);\<newline>'',
          emit ''    throw err;\<newline>'',
          emit ''  }\<newline>'',
          emit ''}\<newline>\<newline>''])\<close>

definition couch_generateArrayBasedDocuments :: "ambient \<Rightarrow> js \<Rightarrow> options \<Rightarrow> string gen" where
  \<open>couch_generateArrayBasedDocuments A jsonData opts =
     (let dataArray = toDataArray jsonData in
      seqG
       [emit ''// Array-based document structure\<newline>'',
        emit ''// Function to add array-based document\<newline>'',
        emit ''async function addArrayBasedDocument() {\<newline>'',
        emit ''  // Prepare document with items array\<newline>'',
        emit ''  const doc = {\<newline>'',
        couch_ids A opts ''    '',
        couch_timestamps A opts ''    '',
        emit ''    items: [\<newline>'',
        forEachG (\<lambda>item index. seqG
           [emit ''      {\<newline>'',
            whenG (addIds opts)
              (bindG (generateId A True) (\<lambda>i. emit (''        id: "'' @ i @ ''",\<newline>''))),
            bindG (liftG (objectEntries item)) (couch_fields ''        ''),
            emit (''      }'' @ commaUnlessLast index (length dataArray) @ ''\<newline>'')]) dataArray,
        emit ''    ]\<newline>'',
        emit ''  };\<newline>\<newline>'',
        emit ''  try {\<newline>'',
        emit ''    const response = await db.insert(doc);\<newline>'',
        emit (''    console.log("Array-based document inserted successfully:", '' @
              ''response.id);\<newline>''),
        emit ''    return response;\<newline>'',
        emit ''  } catch (err) {\<newline>'',
        emit ''    console.error("Error inserting array-based document:", err);\<newline>'',
        emit ''    throw err;\<newline>'',
        emit ''  }\<newline>'',
        emit ''}\<newline>\<newline>''])\<close>

definition couch_createIndex :: "string \<Rightarrow> string \<Rightarrow> string \<Rightarrow> string \<Rightarrow> string \<Rightarrow> string" where
  \<open>couch_createIndex ixFields ixName okText errText trailer =
     ''  try {\<newline>'' @
     ''    await db.createIndex({\<newline>'' @
     ''      index: { fields: ['' @ ixFields @ ''] },\<newline>'' @
     ''      name: '' @ [sq] @ ixName @ [sq] @ ''\<newline>'' @
     ''    });\<newline>'' @
     ''    console.log("'' @ okText @ '' created successfully");\<newline>'' @
     ''  } catch (err) {\<newline>'' @
     ''    console.error("Error creating '' @ errText @ '':", err);\<newline>'' @
     ''  }\<newline>'' @ trailer\<close>

definition couch_generateIndexSuggestions :: "js \<Rightarrow> error + string" where
  \<open>couch_generateIndexSuggestions jsonData =
     (case indexFields jsonData of
        Inl e \<Rightarrow> Inl e
      | Inr ixs \<Rightarrow> Inr
         (''// CouchDB Index Suggestions\<newline>'' @
          ''// Function to create indexes\<newline>'' @
          ''async function createIndexes() {\<newline>'' @
          (if length ixs > 0
           then ''  // Create type index for document types\<newline>'' @
                couch_createIndex ([sq] @ ''type'' @ [sq]) ''type-index'' ''Type index''
                  ''type index'' ''\<newline>'' @
                concat (map (\<lambda>field.
                   ''  // Create index for '' @ field @ ''\<newline>'' @
                   couch_createIndex ([sq] @ field @ [sq]) (field @ ''-index'')
                     (field @ '' index'') (field @ '' index'') ''\<newline>'') ixs) @
                (if length ixs > 1
                 then ''  // Create compound index\<newline>'' @
                      couch_createIndex
                        (joinStr '', '' (map (\<lambda>f. [sq] @ f @ [sq]) (take 2 ixs)))
                        ''compound-index'' ''Compound index'' ''compound index'' []
                 else [])
           else (''  console.log("No obvious index candidates found in this data '' @
                 ''structure");\<newline>'')) @
          ''}\<newline>\<newline>''))\<close>

definition generateCouchDBDocuments :: "ambient \<Rightarrow> js \<Rightarrow> string \<Rightarrow> options \<Rightarrow> string gen" where
  \<open>generateCouchDBDocuments A jsonData structure opts =
     (let dbName = orDefault (optDbName opts) ''nosql_generator_db'' in
      seqG
       [emit ''// CouchDB Code\<newline>'',
        emit ''// Requires nano (CouchDB client) to be installed\<newline>\<newline>'',
        emit ''// Import nano\<newline>'',
        emit ''const nano = require("nano")("http://localhost:5984");\<newline>\<newline>'',
        emit (''// Create database if it doesn'' @ [sq] @ ''t exist\<newline>''),
        emit ''async function createDatabase() {\<newline>'',
        emit ''  try {\<newline>'',
        emit (''    await nano.db.create("'' @ dbName @ ''");\<newline>''),
        emit (''    console.log("Database '' @ [sq] @ dbName @ [sq] @ '' created");\<newline>''),
        emit ''  } catch (err) {\<newline>'',
        emit ''    if (err.statusCode === 412) {\<newline>'',
        emit (''      console.log("Database '' @ [sq] @ dbName @ [sq] @
              '' already exists");\<newline>''),
        emit ''    } else {\<newline>'',
        emit ''      console.error("Error creating database:", err);\<newline>'',
        emit ''    }\<newline>'',
        emit ''  }\<newline>'',
        emit ''}\<newline>\<newline>'',
        emit ''// Get database reference\<newline>'',
        emit (''const db = nano.use("'' @ dbName @ ''");\<newline>\<newline>''),
        (if structure = ''nested'' then couch_generateNestedDocuments A jsonData opts
         else if structure = ''flat'' then couch_generateFlatDocuments A jsonData opts
         else if structure = ''references'' then couch_generateReferencedDocuments A jsonData opts
         else if structure = ''arrays'' then couch_generateArrayBasedDocuments A jsonData opts
         else couch_generateNestedDocuments A jsonData opts),
        whenG (addIndexes opts) (liftG (couch_generateIndexSuggestions jsonData)),
        emit ''// Main function to execute all operations\<newline>'',
        emit ''async function main() {\<newline>'',
        emit ''  await createDatabase();\<newline>'',
        (if structure = ''nested'' then emit ''  await addNestedDocuments();\<newline>''
         else if structure = ''flat'' then emit ''  await addFlatDocuments();\<newline>''
         else if structure = ''references'' then emit ''  await addReferencedDocuments();\<newline>''
         else if structure = ''arrays'' then emit ''  await addArrayBasedDocument();\<newline>''
         else emit ''  await addNestedDocuments();\<newline>''),
        whenG (addIndexes opts) (emit ''  await createIndexes();\<newline>''),
        emit ''}\<newline>\<newline>'',
        emit ''// Run the main function\<newline>'',
        emit ''main().catch(err => console.error("Error:", err));\<newline>''])\<close>

section \<open>The dispatcher\<close>

text \<open>
  \<open>generateNoSQL(jsonData, dbType, structure, options)\<close> of nosqlGenerator.js: the three
  checks \<open>!jsonData\<close>, \<open>!dbType\<close>, \<open>!structure\<close>, the switch over the database type,
  and the returned object \<open>{ data, dbType, structure }\<close> as a triple. Every error is
  rethrown to the caller. The writes to the page and to the module state
  (\<open>lastInput\<close>, \<open>lastOutput\<close>, \<open>lastOptions\<close>) have no part in the result and are left
  out.
\<close>

fun truthy :: "js \<Rightarrow> bool" where
  "truthy JNull = False"
| "truthy (JBool b) = b"
| "truthy (JNum n) = (numberValue n \<noteq> 0)"
| "truthy (JNumText t) = True"
| "truthy (JStr s) = (s \<noteq> [])"
| "truthy (JDate d) = True"
| "truthy (JArr xs) = True"
| "truthy (JObj es) = True"

definition generateNoSQL ::
  "ambient \<Rightarrow> js \<Rightarrow> string \<Rightarrow> string \<Rightarrow> options \<Rightarrow> (string \<times> string \<times> string) gen" where
  "generateNoSQL A jsonData dbType structure opts =
     (if \<not> truthy jsonData then liftG (Inl (Error ''No JSON data provided''))
      else if dbType = [] then liftG (Inl (Error ''No database type selected''))
      else if structure = [] then liftG (Inl (Error ''No document structure selected''))
      else bindG
        (if dbType = ''mongodb'' then generateMongoDBDocuments A jsonData structure opts
         else if dbType = ''firebase'' then generateFirebaseDocuments A jsonData structure opts
         else if dbType = ''dynamodb'' then generateDynamoDBDocuments A jsonData structure opts
         else if dbType = ''couchdb'' then generateCouchDBDocuments A jsonData structure opts
         else liftG (Inl (Error (''Unsupported database type: '' @ dbType))))
        (\<lambda>result. retG (result, dbType, structure)))"

section \<open>Definitions used to state the properties\<close>

text \<open>The sample document of the index advisor's test.\<close>

definition sampleDocument :: js where
  "sampleDocument = JObj
     [(''user_id'', JNum (safeInteger 1)), (''email'', JStr ''a@b.com''),
      (''created_at'', JStr ''2024-01-01''), (''notes'', JStr ''free text'')]"

text \<open>The number of the three heuristics of the index advisor that a field satisfies.\<close>

definition heuristicHits :: "string \<Rightarrow> js \<Rightarrow> nat" where
  "heuristicHits key v =
     (if isIdField key then 1 else 0) + (if isDateField key v then 1 else 0) +
     (if isNameField key then 1 else 0)"

text \<open>A generator that never throws: from every count of ambient reads it returns a text.\<close>

definition okG :: "'a gen \<Rightarrow> bool" where
  "okG m = (\<forall>w. \<exists>x w'. m w = Inr (x, w'))"

text \<open>
  The two shapes of the text of the DynamoDB emitter under the nested policy, each around
  the per-item chunks: the batch shape with its single \<open>BatchWriteCommand\<close>, and the
  per-item shape; and the lines with which a chunk of either shape starts.
\<close>

definition batchText :: "string \<Rightarrow> string list \<Rightarrow> string" where
  \<open>batchText tableName chunks =
     ''// Nested document structure\<newline>'' @
     ''// Function to add items using BatchWriteCommand\<newline>'' @
     ''async function addNestedItems() {\<newline>'' @
     ''  const items = [];\<newline>\<newline>'' @
     concat chunks @
     ''  const command = new BatchWriteCommand({\<newline>'' @
     ''    RequestItems: {\<newline>'' @
     ''      "'' @ tableName @ ''": items\<newline>'' @
     ''    }\<newline>'' @
     ''  });\<newline>\<newline>'' @
     ''  try {\<newline>'' @
     ''    const response = await docClient.send(command);\<newline>'' @
     ''    console.log("Success - items added to '' @ tableName @ ''");\<newline>'' @
     ''    return response;\<newline>'' @
     ''  } catch (err) {\<newline>'' @
     ''    console.error("Error:", err);\<newline>'' @
     ''  }\<newline>'' @
     ''}\<newline>\<newline>''\<close>

definition batchChunkHead :: "nat \<Rightarrow> string" where
  "batchChunkHead i =
     ''  // Item '' @ ordinal i @ ''\<newline>'' @
     ''  items.push({\<newline>'' @
     ''    PutRequest: {\<newline>'' @
     ''      Item: {\<newline>''"

definition putText :: "string \<Rightarrow> nat \<Rightarrow> string list \<Rightarrow> string" where
  \<open>putText tableName n chunks =
     ''// Nested document structure\<newline>'' @
     ''// Function to add items using individual PutCommand\<newline>'' @
     ''async function addNestedItems() {\<newline>'' @
     ''  try {\<newline>'' @
     concat chunks @
     ''    console.log("Success - '' @ natToString n @ '' items added to '' @ tableName @
     ''");\<newline>'' @
     ''  } catch (err) {\<newline>'' @
     ''    console.error("Error:", err);\<newline>'' @
     ''  }\<newline>'' @
     ''}\<newline>\<newline>''\<close>

definition putChunkHead :: "string \<Rightarrow> nat \<Rightarrow> string" where
  \<open>putChunkHead tableName i =
     ''    // Item '' @ ordinal i @ ''\<newline>'' @
     ''    await docClient.send(\<newline>'' @
     ''      new PutCommand({\<newline>'' @
     ''        TableName: "'' @ tableName @ ''",\<newline>'' @
     ''        Item: {\<newline>''\<close>

text \<open>
  Items that are not \<open>null\<close> and have no field that the reference extraction moves: no
  non-empty object and no array of objects.
\<close>

definition plainItems :: "js list \<Rightarrow> bool" where
  "plainItems xs =
     list_all (\<lambda>x. x \<noteq> JNull \<and>
        list_all (\<lambda>(k, v). \<not> isNonEmptyObject v \<and> \<not> isArrayOfObjects v) (ownEntries x)) xs"

text \<open>
  The empty options object \<open>{}\<close>, and one fixed run of the ambient inputs (identifiers
  \<open>id0\<close>, \<open>id1\<close>, ... and a constant clock), for the concrete runs below.
\<close>

definition noOptions :: options where
  "noOptions = \<lparr> addIds = False, addTimestamps = False, addIndexes = False, optDbName = None,
      optSortKey = None, optTableName = None, optCollectionName = None \<rparr>"

definition fixedAmbient :: ambient where
  "fixedAmbient = \<lparr> genId = (\<lambda>short n. ''id'' @ natToString n),
      isoNow = (\<lambda>n. ''2024-01-01T00:00:00.000Z'') \<rparr>"

text \<open>A root value that is an object or an array.\<close>

definition isObjectOrArray :: "js \<Rightarrow> bool" where
  "isObjectOrArray v = (case v of JObj es \<Rightarrow> True | JArr xs \<Rightarrow> True | _ \<Rightarrow> False)"

text \<open>A generator that throws the error \<open>e\<close> from every count of ambient reads.\<close>

definition failsG :: "'a gen \<Rightarrow> error \<Rightarrow> bool" where
  "failsG m e = (\<forall>w. m w = Inl e)"
















text \<open>
  The document \<open>{"a": {"b": {"c": 1}}}\<close> and the text that the MongoDB backend generates
  for it under the references policy with empty options.
\<close>

definition nestedExample :: js where
  "nestedExample = JObj [(''a'', JObj [(''b'', JObj [(''c'', JNum (safeInteger 1))])])]"

definition nestedExampleText :: string where
  \<open>nestedExampleText =
     ''// MongoDB Shell Commands\<newline>'' @
     ''// Run these commands in MongoDB shell or MongoDB Compass\<newline>\<newline>'' @
     ''use nosql_generator_db;\<newline>\<newline>'' @
     ''// Referenced document structure\<newline>'' @
     ''// Collection: a\<newline>'' @
     ''db.a.insertMany([\<newline>'' @
     ''  {\<newline>'' @
     ''    aRef: ObjectId("id0"),\<newline>'' @
     ''  }\<newline>'' @
     '']);\<newline>\<newline>'' @
     ''// Collection: as\<newline>'' @
     ''db.as.insertMany([\<newline>'' @
     ''  {\<newline>'' @
     ''    bRef: ObjectId("id1"),\<newline>'' @
     ''  }\<newline>'' @
     '']);\<newline>\<newline>''\<close>

(*PROPERTIES*)
section \<open>Properties of the value serializers\<close>

lemma escapeQuotes_concat:
  "escapeQuotes s = concat (map (\<lambda>c. if c = CHR 0x22 then [CHR 0x5C, CHR 0x22] else [c]) s)"
  by (induction s) (simp_all add: dq_def bsl_def)

lemma joinStr_Cons: "joinStr sep (x # xs) = x @ concat (map (\<lambda>y. sep @ y) xs)"
  by (induction xs arbitrary: x) simp_all

lemma digitChar_cases:
  "d < 10 \<Longrightarrow> isDigit (digitChar d) \<and> of_char (digitChar d) - 48 = d \<and>
     (digitChar d = CHR ''0'') = (d = 0)"
proof -
  assume "d < 10"
  then have "d \<in> {0, 1, 2, 3, 4, 5, 6, 7, 8, 9}" by auto
  then show ?thesis
    by (auto simp: digitChar_def isDigit_def)
qed

lemma natToString_nonempty: "natToString m \<noteq> []"
  by (subst natToString.simps) simp

lemma natToString_digits: "list_all isDigit (natToString m)"
proof (induction m rule: natToString.induct)
  case (1 n)
  show ?case
  proof (cases "n < 10")
    case True
    then show ?thesis
      using digitChar_cases[of n] by (simp add: natToString.simps[of n])
  next
    case False
    then show ?thesis
      using 1 digitChar_cases[of "n mod 10"] by (simp add: natToString.simps[of n])
  qed
qed

lemma natToString_value:
  "foldl (\<lambda>a c. 10 * a + (of_char c - 48)) 0 (natToString m) = m"
proof (induction m rule: natToString.induct)
  case (1 n)
  show ?case
  proof (cases "n < 10")
    case True
    then show ?thesis
      using digitChar_cases[of n] by (simp add: natToString.simps[of n])
  next
    case False
    then show ?thesis
      using 1 digitChar_cases[of "n mod 10"] by (simp add: natToString.simps[of n])
  qed
qed

lemma natToString_hd: "(hd (natToString m) = CHR ''0'') = (m = 0)"
proof (induction m rule: natToString.induct)
  case (1 n)
  show ?case
  proof (cases "n < 10")
    case True
    then show ?thesis
      using digitChar_cases[of n] by (simp add: natToString.simps[of n])
  next
    case False
    then have "n div 10 \<noteq> 0" by simp
    then show ?thesis
      using 1 False by (simp add: natToString.simps[of n] natToString_nonempty)
  qed
qed

text \<open>
  Claim C1, as amended. For every backend: \<open>null\<close> serializes to \<open>null\<close>. A string
  serializes to its characters between double quotes, every double quote of the string
  replaced by a backslash and a double quote and every other character kept as it is. A
  safe integer serializes to its decimal text, with a minus sign in front when it is
  negative; the decimal text of a natural number is \<open>0\<close> for zero and otherwise a sequence
  of decimal digits without a leading zero whose positional value is the number. Any other
  number serializes to its \<open>String(value)\<close> text. A boolean serializes to \<open>true\<close> or
  \<open>false\<close>. An array serializes to \<open>[\<close>, the serialized elements separated by a comma
  and a space, \<open>]\<close>; an object to \<open>{\<close>, a space, the \<open>key: value\<close> pairs separated the
  same way, a space, \<open>}\<close>. A Date serializes to \<open>ISODate("...")\<close> in the MongoDB module and
  to \<open>new Date("...")\<close> in the Firebase module; the DynamoDB and the CouchDB module write
  its ISO-8601 text as a plain double-quoted string.
\<close>

theorem valueToString_rules:
  \<open>valueToString b JNull = ''null'' \<and>
   valueToString b (JStr s) =
     ''"'' @ concat (map (\<lambda>c. if c = CHR 0x22 then [CHR 0x5C, CHR 0x22] else [c]) s) @ ''"'' \<and>
   valueToString b (JNum n) =
     (if numberValue n < 0 then ''-'' else []) @ natToString (nat \<bar>numberValue n\<bar>) \<and>
   natToString 0 = ''0'' \<and>
   list_all (\<lambda>c. c \<in> set ''0123456789'') (natToString m) \<and>
   (hd (natToString m) = CHR ''0'') = (m = 0) \<and>
   foldl (\<lambda>a c. 10 * a + (of_char c - 48)) 0 (natToString m) = m \<and>
   valueToString b (JNumText t) = t \<and>
   valueToString b (JBool True) = ''true'' \<and>
   valueToString b (JBool False) = ''false'' \<and>
   valueToString b (JArr []) = ''[]'' \<and>
   valueToString b (JArr (x # xs)) =
     ''['' @ valueToString b x @ concat (map (\<lambda>y. '', '' @ valueToString b y) xs) @ '']'' \<and>
   valueToString b (JObj []) = ''{  }'' \<and>
   valueToString b (JObj ((k, v) # es)) =
     ''{ '' @ k @ '': '' @ valueToString b v @
     concat (map (\<lambda>(k', v'). '', '' @ k' @ '': '' @ valueToString b v') es) @ '' }'' \<and>
   valueToString MongoDB (JDate d) = ''ISODate("'' @ d @ ''")'' \<and>
   valueToString Firebase (JDate d) = ''new Date("'' @ d @ ''")'' \<and>
   valueToString DynamoDB (JDate d) = ''"'' @ d @ ''"'' \<and>
   valueToString CouchDB (JDate d) = ''"'' @ d @ ''"''\<close>
proof -
  have "natToString 0 = ''0''"
    by (simp add: natToString.simps digitChar_def)
  moreover have "isDigit = (\<lambda>c. c \<in> set ''0123456789'')"
    by (rule ext) (rule isDigit_def)
  then have "list_all (\<lambda>c. c \<in> set ''0123456789'') (natToString m)"
    using natToString_digits[of m] by (simp only:)
  moreover have "valueToString b (JNum n) =
      (if numberValue n < 0 then ''-'' else []) @ natToString (nat \<bar>numberValue n\<bar>)"
    by (cases b) (simp_all add: numberToString_def abs_if)
  moreover have \<open>valueToString b (JStr s) =
     ''"'' @ concat (map (\<lambda>c. if c = CHR 0x22 then [CHR 0x5C, CHR 0x22] else [c]) s) @ ''"''\<close>
    by (cases b) (simp_all add: escapeQuotes_concat dq_def)
  moreover have "valueToString b JNull = ''null'' \<and> valueToString b (JNumText t) = t \<and>
      valueToString b (JBool True) = ''true'' \<and> valueToString b (JBool False) = ''false'' \<and>
      valueToString b (JArr []) = ''[]'' \<and> valueToString b (JObj []) = ''{  }''"
    by (cases b) (simp_all add: booleanToString_def)
  moreover have "valueToString b (JArr (x # xs)) =
     ''['' @ valueToString b x @ concat (map (\<lambda>y. '', '' @ valueToString b y) xs) @ '']''"
    by (cases b) (simp_all add: joinStr_Cons comp_def)
  moreover have "valueToString b (JObj ((k, v) # es)) =
     ''{ '' @ k @ '': '' @ valueToString b v @
     concat (map (\<lambda>(k', v'). '', '' @ k' @ '': '' @ valueToString b v') es) @ '' }''"
    by (cases b) (simp_all add: joinStr_Cons comp_def case_prod_unfold)
  moreover have \<open>valueToString MongoDB (JDate d) = ''ISODate("'' @ d @ ''")'' \<and>
      valueToString Firebase (JDate d) = ''new Date("'' @ d @ ''")'' \<and>
      valueToString DynamoDB (JDate d) = ''"'' @ d @ ''"'' \<and>
      valueToString CouchDB (JDate d) = ''"'' @ d @ ''"''\<close>
    by (simp add: dq_def)
  ultimately show ?thesis
    using natToString_hd[of m] natToString_value[of m] by blast
qed

text \<open>
  Claim C1 as stated fails: it asks that a date is written with a date constructor and
  not as a bare string. In the CouchDB and in the DynamoDB module the Date of
  2024-01-01 serializes to the very text that the string \<open>2024-01-01T00:00:00.000Z\<close>
  serializes to.
\<close>

theorem date_as_bare_string_counterexample:
  "valueToString CouchDB (JDate ''2024-01-01T00:00:00.000Z'')
     = valueToString CouchDB (JStr ''2024-01-01T00:00:00.000Z'') \<and>
   valueToString DynamoDB (JDate ''2024-01-01T00:00:00.000Z'')
     = valueToString DynamoDB (JStr ''2024-01-01T00:00:00.000Z'')"
  by (simp add: dq_def)

section \<open>Properties of the index advisor\<close>

lemmas index_eval = isIdField_def isDateField_def isNameField_def toLowerCase_def
  toLowerChar_def startsWith_def endsWith_def matchesDatePattern_def isDigit_def

lemma sample_heuristics:
  "isIdField ''user_id''" "\<not> isDateField ''user_id'' (JNum (safeInteger 1))" "\<not> isNameField ''user_id''"
  "\<not> isIdField ''email''" "\<not> isDateField ''email'' (JStr ''a@b.com'')" "isNameField ''email''"
  "\<not> isIdField ''created_at''" "isDateField ''created_at'' (JStr ''2024-01-01'')"
  "\<not> isNameField ''created_at''"
  "\<not> isIdField ''notes''" "\<not> isDateField ''notes'' (JStr ''free text'')"
  "\<not> isNameField ''notes''"
  by (simp_all add: index_eval)

text \<open>
  Claim C6, as amended. The candidate list is computed by the same code in the four
  modules (\<open>indexFields\<close>). When the input is an array whose first element is the sample
  document, the list is exactly \<open>user_id\<close>, \<open>email\<close>, \<open>created_at\<close>, in field order and
  without \<open>notes\<close>, whatever the other elements are. When the input is the sample
  document itself, not wrapped in an array, nothing is sampled and the list is empty.
\<close>

theorem indexFields_sample:
  "indexFields (JArr (sampleDocument # others)) = Inr [''user_id'', ''email'', ''created_at'']
   \<and> ''notes'' \<notin> set [''user_id'', ''email'', ''created_at'']
   \<and> indexFields sampleDocument = Inr []"
  by (simp add: indexFields_def sampleDocument_def objectEntries_def sample_heuristics)

text \<open>
  Claim C6 as stated fails where the sample document is the input itself: the advisor
  does not return the three candidates.
\<close>

theorem indexFields_bare_object_counterexample:
  "indexFields sampleDocument \<noteq> Inr [''user_id'', ''email'', ''created_at'']"
  by (simp add: indexFields_def sampleDocument_def)

lemma indexFieldsOf_replicate:
  "indexFieldsOf es = concat (map (\<lambda>(key, v). replicate (heuristicHits key v) key) es)"
  by (induction es) (auto simp: heuristicHits_def)

text \<open>
  Claim C7, as amended. For a sample object the candidate list is the list of its fields
  in field order, each field repeated once for each of the three heuristics it
  satisfies: not at all, once, twice or three times.
\<close>

theorem indexFields_multiplicity:
  "indexFields (JArr (JObj es # others))
     = Inr (concat (map (\<lambda>(key, v). replicate (heuristicHits key v) key) es)) \<and>
   heuristicHits k v \<le> 3"
  by (simp add: indexFields_def objectEntries_def indexFieldsOf_replicate heuristicHits_def)

lemma duplicate_heuristics:
  "isIdField ''user_id''" "isDateField ''user_id'' (JStr ''2024-01-01'')"
  "\<not> isNameField ''user_id''"
  by (simp_all add: index_eval)

text \<open>
  Claim C7 as stated fails: a field whose name contains \<open>id\<close> and whose value starts
  with a date occurs twice in the candidate list.
\<close>

theorem indexFields_duplicate_counterexample:
  "indexFields (JArr [JObj [(''user_id'', JStr ''2024-01-01'')]]) = Inr [''user_id'', ''user_id'']
   \<and> \<not> distinct [''user_id'', ''user_id'']"
  by (simp add: indexFields_def objectEntries_def duplicate_heuristics)

section \<open>Generators that do not throw\<close>


lemma okG_retG: "okG (retG x)"
  by (simp add: okG_def retG_def)

lemma okG_emit: "okG (emit s)"
  by (simp add: emit_def okG_retG)

lemma okG_bindG: "okG m \<Longrightarrow> (\<And>x. okG (f x)) \<Longrightarrow> okG (bindG m f)"
  unfolding okG_def bindG_def
proof
  fix w
  assume m: "\<forall>w. \<exists>x w'. m w = Inr (x, w')" and f: "\<And>x. \<forall>w. \<exists>y w'. f x w = Inr (y, w')"
  from m obtain x w1 where "m w = Inr (x, w1)" by blast
  moreover from f obtain y w2 where "f x w1 = Inr (y, w2)" by blast
  ultimately show "\<exists>y w'. (case m w of Inl e \<Rightarrow> Inl e | Inr (x, w') \<Rightarrow> f x w') = Inr (y, w')"
    by simp
qed

lemma okG_liftG: "okG (liftG (Inr x))"
  by (simp add: okG_def liftG_def)

lemma okG_whenG: "okG m \<Longrightarrow> okG (whenG b m)"
  by (simp add: whenG_def okG_retG)

lemma okG_generateId: "okG (generateId A short)"
  by (simp add: okG_def generateId_def)

lemma okG_nowISO: "okG (nowISO A)"
  by (simp add: okG_def nowISO_def)

lemma okG_seqG: "(\<And>m. m \<in> set ms \<Longrightarrow> okG m) \<Longrightarrow> okG (seqG ms)"
  by (induction ms) (auto intro!: okG_retG okG_bindG)

lemma okG_forEachG: "(\<And>x i. x \<in> set xs \<Longrightarrow> okG (f x i)) \<Longrightarrow> okG (forEachG f xs)"
  unfolding forEachG_def
  by (rule okG_seqG) (auto simp: enumerate_eq_zip dest: set_zip_rightD)

lemma okG_if: "okG a \<Longrightarrow> okG b \<Longrightarrow> okG (if c then a else b)"
  by simp

lemmas okG_intros = okG_retG okG_emit okG_bindG okG_liftG okG_whenG okG_generateId okG_nowISO
  okG_seqG okG_forEachG okG_if

text \<open>The text of a sequence around its fixed lines.\<close>

lemma seqG_emit_Cons:
  "seqG (emit s # ms) w = (case seqG ms w of Inl e \<Rightarrow> Inl e | Inr (t, w') \<Rightarrow> Inr (s @ t, w'))"
  by (simp add: emit_def retG_def bindG_def split: sum.splits)

lemma seqG_Cons_result:
  "seqG (m # ms) w = Inr (out, w') \<longleftrightarrow>
     (\<exists>s t w1. m w = Inr (s, w1) \<and> seqG ms w1 = Inr (t, w') \<and> out = s @ t)"
  by (auto simp: retG_def bindG_def split: sum.splits)

lemma seqG_Nil_result: "seqG [] w = Inr (out, w') \<longleftrightarrow> out = [] \<and> w' = w"
  by (auto simp: retG_def)


lemma seqG_Cons_ok:
  "m w = Inr (s, w1) \<Longrightarrow>
   seqG (m # ms) w = (case seqG ms w1 of Inl e \<Rightarrow> Inl e | Inr (t, w') \<Rightarrow> Inr (s @ t, w'))"
  by (simp add: bindG_def retG_def split: sum.splits)

declare seqG.simps(2) [simp del]


lemma seqG_enumerate_result:
  "seqG (map (\<lambda>(i, x). f x i) (enumerate n xs)) w = Inr (out, w') \<Longrightarrow>
   \<exists>chunks. out = concat chunks \<and> length chunks = length xs \<and>
     (\<forall>i<length xs. \<exists>wa wb. f (xs ! i) (n + i) wa = Inr (chunks ! i, wb))"
proof (induction xs arbitrary: n w out)
  case Nil
  then show ?case by (simp add: retG_def)
next
  case (Cons x xs)
  from Cons.prems obtain s t w1 where
    s: "f x n w = Inr (s, w1)" and
    t: "seqG (map (\<lambda>(i, x). f x i) (enumerate (Suc n) xs)) w1 = Inr (t, w')" and
    out: "out = s @ t"
    by (auto simp: seqG_Cons_result)
  from Cons.IH[OF t] obtain chunks where
    c: "t = concat chunks" "length chunks = length xs"
       "\<forall>i<length xs. \<exists>wa wb. f (xs ! i) (Suc n + i) wa = Inr (chunks ! i, wb)"
    by blast
  have "\<forall>i<length (x # xs). \<exists>wa wb. f ((x # xs) ! i) (n + i) wa = Inr ((s # chunks) ! i, wb)"
  proof (intro allI impI)
    fix i assume "i < length (x # xs)"
    then show "\<exists>wa wb. f ((x # xs) ! i) (n + i) wa = Inr ((s # chunks) ! i, wb)"
      using s c(3) by (cases i) auto
  qed
  then show ?case
    using out c(1,2) by (intro exI[of _ "s # chunks"]) simp
qed

lemma forEachG_result:
  "forEachG f xs w = Inr (out, w') \<Longrightarrow>
   \<exists>chunks. out = concat chunks \<and> length chunks = length xs \<and>
     (\<forall>i<length xs. \<exists>wa wb. f (xs ! i) i wa = Inr (chunks ! i, wb))"
  using seqG_enumerate_result[of f 0 xs w out w'] by (simp add: forEachG_def)

lemma seqG_emit_ConsE:
  assumes "seqG (emit a # ms) w = Inr (c, w')"
  obtains r where "c = a @ r" and "seqG ms w = Inr (r, w')"
  using assms by (auto simp: seqG_emit_Cons split: sum.splits)

lemma seqG_map_emit: "seqG (map emit ts) w = Inr (concat ts, w)"
  by (induction ts) (simp_all add: seqG_emit_Cons retG_def)

lemma seqG_append_emit:
  "seqG (map emit hs @ ms) w =
     (case seqG ms w of Inl e \<Rightarrow> Inl e | Inr (t, w') \<Rightarrow> Inr (concat hs @ t, w'))"
  by (induction hs) (auto simp: seqG_emit_Cons split: sum.splits)

lemma seqG_emits_around:
  "m w = Inr (body, w1) \<Longrightarrow>
   seqG (map emit hs @ m # map emit ts) w = Inr (concat hs @ body @ concat ts, w1)"
  by (simp add: seqG_append_emit seqG_Cons_ok[of m w body w1] seqG_map_emit)

lemma okG_D: "okG m \<Longrightarrow> \<exists>x w'. m w = Inr (x, w')"
  by (simp add: okG_def)

lemma okG_dynamo_keys: "okG (dynamo_keys A opts indent index)"
  unfolding dynamo_keys_def
  by (auto intro!: okG_intros split: option.splits)

lemma okG_dynamo_fields: "okG (dynamo_fields indent es)"
  unfolding dynamo_fields_def
  by (auto intro!: okG_intros)

lemma okG_entries: "item \<noteq> JNull \<Longrightarrow> okG (bindG (liftG (objectEntries item)) f) = okG (f (ownEntries item))"
  by (simp add: okG_def bindG_def liftG_def objectEntries_def)

lemma startsWith_append: "startsWith (p @ r) p"
  by (simp add: startsWith_def)

text \<open>
  Claim C3. Under the nested policy the DynamoDB emitter, given documents none of which
  is \<open>null\<close> (a root that is not an array counts as one document), returns a text and
  never throws. With at most 25 documents the text has the batch shape: one chunk
  \<open>items.push({ PutRequest: ... })\<close> per document, then the single
  \<open>BatchWriteCommand\<close>. With more than 25 documents it has the per-item shape: one chunk
  \<open>await docClient.send(new PutCommand({ ... }))\<close> per document.
\<close>

theorem dynamo_batch_threshold:
  assumes docs: "\<forall>item\<in>set (toDataArray jsonData). item \<noteq> JNull"
  shows "\<exists>chunks w'.
     dynamo_generateNestedDocuments A jsonData tableName opts w =
       Inr (if length (toDataArray jsonData) \<le> 25 then batchText tableName chunks
            else putText tableName (length (toDataArray jsonData)) chunks, w') \<and>
     length chunks = length (toDataArray jsonData) \<and>
     (\<forall>i<length chunks.
        startsWith (chunks ! i)
          (if length (toDataArray jsonData) \<le> 25 then batchChunkHead i
           else putChunkHead tableName i))"
proof (cases "length (toDataArray jsonData) \<le> 25")
  case True
  let ?f = "\<lambda>item index. seqG
           [emit (''  // Item '' @ ordinal index @ ''\<newline>''),
            emit ''  items.push({\<newline>'',
            emit ''    PutRequest: {\<newline>'',
            emit ''      Item: {\<newline>'',
            dynamo_keys A opts ''        '' index,
            bindG (liftG (objectEntries item)) (dynamo_fields ''        ''),
            emit ''      }\<newline>'',
            emit ''    }\<newline>'',
            emit ''  });\<newline>\<newline>'']"
  have "okG (forEachG ?f (toDataArray jsonData))"
    using docs
    by (intro okG_forEachG okG_seqG)
       (auto simp: okG_entries intro!: okG_emit okG_dynamo_keys okG_dynamo_fields)
  then obtain body w1 where body: "forEachG ?f (toDataArray jsonData) w = Inr (body, w1)"
    using okG_D by blast
  from forEachG_result[OF body] obtain chunks where
    ch: "body = concat chunks" "length chunks = length (toDataArray jsonData)"
        "\<forall>i<length (toDataArray jsonData). \<exists>wa wb.
            ?f (toDataArray jsonData ! i) i wa = Inr (chunks ! i, wb)"
    by blast
  have heads: "\<forall>i<length chunks. startsWith (chunks ! i) (batchChunkHead i)"
  proof (intro allI impI)
    fix i assume "i < length chunks"
    with ch obtain wa wb where h: "?f (toDataArray jsonData ! i) i wa = Inr (chunks ! i, wb)"
      by auto
    from h obtain r1 ms1 where r1: "chunks ! i = (''  // Item '' @ ordinal i @ ''\<newline>'') @ r1"
        "seqG (emit ''  items.push({\<newline>'' # emit ''    PutRequest: {\<newline>'' #
               emit ''      Item: {\<newline>'' # ms1) wa = Inr (r1, wb)"
      by (rule seqG_emit_ConsE) blast
    from r1(2) obtain r2 where r2: "r1 = ''  items.push({\<newline>'' @ r2"
        "seqG (emit ''    PutRequest: {\<newline>'' # emit ''      Item: {\<newline>'' # ms1) wa
           = Inr (r2, wb)"
      by (rule seqG_emit_ConsE) blast
    from r2(2) obtain r3 where r3: "r2 = ''    PutRequest: {\<newline>'' @ r3"
        "seqG (emit ''      Item: {\<newline>'' # ms1) wa = Inr (r3, wb)"
      by (rule seqG_emit_ConsE) blast
    from r3(2) obtain r4 where r4: "r3 = ''      Item: {\<newline>'' @ r4"
      by (rule seqG_emit_ConsE) blast
    have "chunks ! i = batchChunkHead i @ r4"
      by (simp add: r1(1) r2(1) r3(1) r4 batchChunkHead_def)
    then show "startsWith (chunks ! i) (batchChunkHead i)"
      by (simp only: startsWith_append)
  qed
  let ?hs = "[''// Nested document structure\<newline>'',
              ''// Function to add items using BatchWriteCommand\<newline>'',
              ''async function addNestedItems() {\<newline>'',
              ''  const items = [];\<newline>\<newline>'']"
  let ?ts = "[''  const command = new BatchWriteCommand({\<newline>'',
              ''    RequestItems: {\<newline>'',
              ''      '' @ [CHR 0x22] @ tableName @ [CHR 0x22] @ '': items\<newline>'',
              ''    }\<newline>'',
              ''  });\<newline>\<newline>'',
              ''  try {\<newline>'',
              ''    const response = await docClient.send(command);\<newline>'',
              ''    console.log('' @ [CHR 0x22] @ ''Success - items added to '' @ tableName @
                [CHR 0x22] @ '');\<newline>'',
              ''    return response;\<newline>'',
              ''  } catch (err) {\<newline>'',
              ''    console.error('' @ [CHR 0x22] @ ''Error:'' @ [CHR 0x22] @ '', err);\<newline>'',
              ''  }\<newline>'',
              ''}\<newline>\<newline>'']"
  have eq: "dynamo_generateNestedDocuments A jsonData tableName opts =
      seqG (map emit ?hs @ forEachG ?f (toDataArray jsonData) # map emit ?ts)"
    using True by (simp add: dynamo_generateNestedDocuments_def Let_def)
  have run: "seqG (map emit ?hs @ forEachG ?f (toDataArray jsonData) # map emit ?ts) w
      = Inr (concat ?hs @ body @ concat ?ts, w1)"
    by (rule seqG_emits_around) (rule body)
  have "concat ?hs @ body @ concat ?ts = batchText tableName chunks"
    by (simp add: batchText_def ch(1))
  with eq run have "dynamo_generateNestedDocuments A jsonData tableName opts w
          = Inr (batchText tableName chunks, w1)"
    by (simp only:)
  then show ?thesis
    using True ch(2) heads by auto
next
  case False
  let ?f = "\<lambda>item index. seqG
           [emit (''    // Item '' @ ordinal index @ ''\<newline>''),
            emit ''    await docClient.send(\<newline>'',
            emit ''      new PutCommand({\<newline>'',
            emit (''        TableName: '' @ [CHR 0x22] @ tableName @ [CHR 0x22] @ '',\<newline>''),
            emit ''        Item: {\<newline>'',
            dynamo_keys A opts ''          '' index,
            bindG (liftG (objectEntries item)) (dynamo_fields ''          ''),
            emit ''        }\<newline>'',
            emit ''      })\<newline>'',
            emit ''    );\<newline>\<newline>'']"
  have "okG (forEachG ?f (toDataArray jsonData))"
    using docs
    by (intro okG_forEachG okG_seqG)
       (auto simp: okG_entries intro!: okG_emit okG_dynamo_keys okG_dynamo_fields)
  then obtain body w1 where body: "forEachG ?f (toDataArray jsonData) w = Inr (body, w1)"
    using okG_D by blast
  from forEachG_result[OF body] obtain chunks where
    ch: "body = concat chunks" "length chunks = length (toDataArray jsonData)"
        "\<forall>i<length (toDataArray jsonData). \<exists>wa wb.
            ?f (toDataArray jsonData ! i) i wa = Inr (chunks ! i, wb)"
    by blast
  have heads: "\<forall>i<length chunks. startsWith (chunks ! i) (putChunkHead tableName i)"
  proof (intro allI impI)
    fix i assume "i < length chunks"
    with ch obtain wa wb where h: "?f (toDataArray jsonData ! i) i wa = Inr (chunks ! i, wb)"
      by auto
    from h obtain r1 ms1 where r1: "chunks ! i = (''    // Item '' @ ordinal i @ ''\<newline>'') @ r1"
        "seqG (emit ''    await docClient.send(\<newline>'' # emit ''      new PutCommand({\<newline>'' #
               emit (''        TableName: '' @ [CHR 0x22] @ tableName @ [CHR 0x22] @ '',\<newline>'') #
               emit ''        Item: {\<newline>'' # ms1) wa = Inr (r1, wb)"
      by (rule seqG_emit_ConsE) blast
    from r1(2) obtain r2 where r2: "r1 = ''    await docClient.send(\<newline>'' @ r2"
        "seqG (emit ''      new PutCommand({\<newline>'' #
               emit (''        TableName: '' @ [CHR 0x22] @ tableName @ [CHR 0x22] @ '',\<newline>'') #
               emit ''        Item: {\<newline>'' # ms1) wa = Inr (r2, wb)"
      by (rule seqG_emit_ConsE) blast
    from r2(2) obtain r3 where r3: "r2 = ''      new PutCommand({\<newline>'' @ r3"
        "seqG (emit (''        TableName: '' @ [CHR 0x22] @ tableName @ [CHR 0x22] @ '',\<newline>'') #
               emit ''        Item: {\<newline>'' # ms1) wa = Inr (r3, wb)"
      by (rule seqG_emit_ConsE) blast
    from r3(2) obtain r4 where r4:
        "r3 = (''        TableName: '' @ [CHR 0x22] @ tableName @ [CHR 0x22] @ '',\<newline>'') @ r4"
        "seqG (emit ''        Item: {\<newline>'' # ms1) wa = Inr (r4, wb)"
      by (rule seqG_emit_ConsE) blast
    from r4(2) obtain r5 where r5: "r4 = ''        Item: {\<newline>'' @ r5"
      by (rule seqG_emit_ConsE) blast
    have "chunks ! i = putChunkHead tableName i @ r5"
      by (simp add: r1(1) r2(1) r3(1) r4(1) r5 putChunkHead_def)
    then show "startsWith (chunks ! i) (putChunkHead tableName i)"
      by (simp only: startsWith_append)
  qed
  let ?hs = "[''// Nested document structure\<newline>'',
              ''// Function to add items using individual PutCommand\<newline>'',
              ''async function addNestedItems() {\<newline>'',
              ''  try {\<newline>'']"
  let ?ts = "[''    console.log('' @ [CHR 0x22] @ ''Success - '' @
                natToString (length (toDataArray jsonData)) @ '' items added to '' @ tableName @
                [CHR 0x22] @ '');\<newline>'',
              ''  } catch (err) {\<newline>'',
              ''    console.error('' @ [CHR 0x22] @ ''Error:'' @ [CHR 0x22] @ '', err);\<newline>'',
              ''  }\<newline>'',
              ''}\<newline>\<newline>'']"
  have eq: "dynamo_generateNestedDocuments A jsonData tableName opts =
      seqG (map emit ?hs @ forEachG ?f (toDataArray jsonData) # map emit ?ts)"
    using False by (simp add: dynamo_generateNestedDocuments_def Let_def)
  have run: "seqG (map emit ?hs @ forEachG ?f (toDataArray jsonData) # map emit ?ts) w
      = Inr (concat ?hs @ body @ concat ?ts, w1)"
    by (rule seqG_emits_around) (rule body)
  have "concat ?hs @ body @ concat ?ts
          = putText tableName (length (toDataArray jsonData)) chunks"
    by (simp add: putText_def ch(1))
  with eq run have "dynamo_generateNestedDocuments A jsonData tableName opts w
          = Inr (putText tableName (length (toDataArray jsonData)) chunks, w1)"
    by (simp only:)
  then show ?thesis
    using False ch(2) heads by auto
qed

text \<open>
  Witness for C3 at the boundary: 25 empty documents take the batch shape, 26 take the
  per-item shape.
\<close>

theorem dynamo_batch_threshold_witness:
  "(\<exists>chunks w'.
      dynamo_generateNestedDocuments fixedAmbient (JArr (replicate 25 (JObj []))) ''Items''
          noOptions 0 = Inr (batchText ''Items'' chunks, w') \<and>
      length chunks = 25 \<and>
      (\<forall>i<length chunks. startsWith (chunks ! i) (batchChunkHead i))) \<and>
   (\<exists>chunks w'.
      dynamo_generateNestedDocuments fixedAmbient (JArr (replicate 26 (JObj []))) ''Items''
          noOptions 0 = Inr (putText ''Items'' 26 chunks, w') \<and>
      length chunks = 26 \<and>
      (\<forall>i<length chunks. startsWith (chunks ! i) (putChunkHead ''Items'' i)))"
  using dynamo_batch_threshold[of "JArr (replicate 25 (JObj []))" fixedAmbient "''Items''"
          noOptions 0]
        dynamo_batch_threshold[of "JArr (replicate 26 (JObj []))" fixedAmbient "''Items''"
          noOptions 0]
  by (simp add: toDataArray_def)

lemma okG_seqG_Nil: "okG (seqG [])"
  by (simp add: okG_retG)

lemma okG_seqG_Cons: "okG m \<Longrightarrow> okG (seqG ms) \<Longrightarrow> okG (seqG (m # ms))"
  by (simp add: seqG.simps(2) okG_bindG okG_retG)

lemma okG_case_prod: "(\<And>a b. okG (f a b)) \<Longrightarrow> okG (case p of (a, b) \<Rightarrow> f a b)"
  by (cases p) simp

lemma okG_case_prod2: "(\<And>a b. okG (f a b i)) \<Longrightarrow> okG ((case p of (a, b) \<Rightarrow> f a b) i)"
  by (cases p) simp

lemma okG_bind_entries:
  "item \<noteq> JNull \<Longrightarrow> (\<And>es. okG (f es)) \<Longrightarrow> okG (bindG (liftG (objectEntries item)) f)"
  by (simp add: okG_entries)

lemma okG_bind_flatten:
  "item \<noteq> JNull \<Longrightarrow> (\<And>es. okG (f es)) \<Longrightarrow> okG (bindG (liftG (flattenObject sep item p)) f)"
  by (simp add: okG_def bindG_def liftG_def flattenObject_def objectEntries_def)

lemma okG_bind_Inr: "r = Inr x \<Longrightarrow> okG (f x) \<Longrightarrow> okG (bindG (liftG r) f)"
  by (simp add: okG_def bindG_def liftG_def)

lemma okG_forEachG_pairs:
  "(\<And>a b i. (a, b) \<in> set xs \<Longrightarrow> okG (f a b i)) \<Longrightarrow> okG (forEachG (\<lambda>(a, b) i. f a b i) xs)"
  by (rule okG_forEachG) auto

lemma okG_bind_generateId: "(\<And>x. okG (f x)) \<Longrightarrow> okG (bindG (generateId A short) f)"
  by (simp add: okG_bindG okG_generateId)

lemma okG_bind_nowISO: "(\<And>x. okG (f x)) \<Longrightarrow> okG (bindG (nowISO A) f)"
  by (simp add: okG_bindG okG_nowISO)

lemmas okG_rules = okG_retG okG_emit okG_liftG okG_whenG okG_bind_generateId okG_bind_nowISO
  okG_seqG_Nil okG_seqG_Cons okG_forEachG_pairs okG_forEachG okG_if okG_bind_entries
  okG_bind_flatten

lemma okG_mongo_ids: "okG (mongo_ids A opts indent)"
  unfolding mongo_ids_def by (intro okG_rules)

lemma okG_mongo_timestamps: "okG (mongo_timestamps A opts indent)"
  unfolding mongo_timestamps_def by (intro okG_rules)

lemma okG_mongo_fields: "okG (mongo_fields indent es)"
  unfolding mongo_fields_def by (intro okG_rules)

lemma okG_mongo_refFields: "okG (mongo_refFields A es)"
  unfolding mongo_refFields_def by (intro okG_rules)

lemmas okG_mongo = okG_mongo_ids okG_mongo_timestamps okG_mongo_fields okG_mongo_refFields

lemma okG_mongo_nested:
  "\<forall>item\<in>set (toDataArray j). item \<noteq> JNull \<Longrightarrow>
   okG (mongo_generateNestedDocuments A j name opts)"
  unfolding mongo_generateNestedDocuments_def Let_def
  by (intro okG_rules okG_mongo) auto

lemma okG_mongo_flat:
  "\<forall>item\<in>set (toDataArray j). item \<noteq> JNull \<Longrightarrow>
   okG (mongo_generateFlatDocuments A j name opts)"
  unfolding mongo_generateFlatDocuments_def Let_def mongo_flattenObject_def
  by (intro okG_rules okG_mongo) auto

lemma okG_mongo_arrays:
  "\<forall>item\<in>set (toDataArray j). item \<noteq> JNull \<Longrightarrow>
   okG (mongo_generateArrayBasedDocuments A j name opts)"
  unfolding mongo_generateArrayBasedDocuments_def Let_def
  by (intro okG_rules okG_mongo) auto

lemma okG_mongo_refs:
  "mongo_extractReferencedCollections (toDataArray j) (jsSet name (toDataArray j) []) = Inr cs \<Longrightarrow>
   \<forall>(c, items)\<in>set cs. \<forall>item\<in>set items. item \<noteq> JNull \<Longrightarrow>
   okG (mongo_generateReferencedDocuments A j name opts)"
  unfolding mongo_generateReferencedDocuments_def
  by (rule okG_bind_Inr, assumption) (intro okG_rules okG_mongo, auto)


lemma extractFields_plain:
  "list_all (\<lambda>(k, v). \<not> isNonEmptyObject v \<and> \<not> isArrayOfObjects v) es \<Longrightarrow>
   extractFields nameObj nameArr es cs = Inr cs"
  by (induction es) auto

lemma extractItems_plain: "plainItems xs \<Longrightarrow> extractItems nameObj nameArr xs cs = Inr cs"
  by (induction xs) (auto simp: plainItems_def objectEntries_def extractFields_plain)

lemma plainItems_nonnull: "plainItems xs \<Longrightarrow> x \<in> set xs \<Longrightarrow> x \<noteq> JNull"
  by (auto simp: plainItems_def list_all_iff)

lemma jsSet_single: "(c, items) \<in> set (jsSet name xs []) \<Longrightarrow> items = xs"
  by (auto simp: jsSet_def split: if_splits)

lemma indexFields_ok:
  "\<forall>item\<in>set (toDataArray j). item \<noteq> JNull \<Longrightarrow> \<exists>ixs. indexFields j = Inr ixs"
  by (cases j)
     (auto simp: indexFields_def toDataArray_def objectEntries_def split: list.splits)

lemma firstKeyName_ok:
  "\<forall>item\<in>set (toDataArray j). item \<noteq> JNull \<Longrightarrow> \<exists>name. firstKeyName j a d = Inr name"
  by (cases j) (auto simp: firstKeyName_def toDataArray_def objectKeys_def)

lemma okG_mongo_index:
  "\<forall>item\<in>set (toDataArray j). item \<noteq> JNull \<Longrightarrow>
   okG (liftG (mongo_generateIndexSuggestions j name))"
  using indexFields_ok[of j]
  by (auto simp: mongo_generateIndexSuggestions_def okG_def liftG_def)

lemma okG_mongo_refs_plain:
  "plainItems (toDataArray j) \<Longrightarrow> okG (mongo_generateReferencedDocuments A j name opts)"
  by (rule okG_mongo_refs[where cs = "jsSet name (toDataArray j) []"])
     (auto simp: mongo_extractReferencedCollections_def extractItems_plain
           dest!: jsSet_single dest: plainItems_nonnull)

lemma okG_generateMongoDBDocuments:
  assumes "\<forall>item\<in>set (toDataArray j). item \<noteq> JNull"
    and "structure = ''references'' \<longrightarrow> plainItems (toDataArray j)"
  shows "okG (generateMongoDBDocuments A j structure opts)"
proof -
  from firstKeyName_ok[OF assms(1)] obtain name
    where name: "firstKeyName j ''items'' ''collection'' = Inr name" by blast
  show ?thesis
    unfolding generateMongoDBDocuments_def
    by (rule okG_bind_Inr[OF name])
       (use assms in \<open>auto intro!: okG_rules okG_mongo_nested okG_mongo_flat okG_mongo_arrays
          okG_mongo_refs_plain okG_mongo_index\<close>)
qed

text \<open>The Firebase generator.\<close>

lemma okG_firebase_timestamps: "okG (firebase_timestamps opts)"
  unfolding firebase_timestamps_def by (intro okG_rules)

lemma okG_firebase_fields: "okG (firebase_fields indent es)"
  unfolding firebase_fields_def by (intro okG_rules)

lemma okG_firebase_docOpen: "okG (firebase_docOpen A opts index)"
  unfolding firebase_docOpen_def by (intro okG_rules)

lemma okG_firebase_refFields: "okG (firebase_refFields A es)"
  unfolding firebase_refFields_def by (intro okG_rules)

lemmas okG_firebase = okG_firebase_timestamps okG_firebase_fields okG_firebase_docOpen
  okG_firebase_refFields

lemma okG_firebase_nested:
  "\<forall>item\<in>set (toDataArray j). item \<noteq> JNull \<Longrightarrow>
   okG (firebase_generateNestedDocuments A j name opts)"
  unfolding firebase_generateNestedDocuments_def Let_def
  by (intro okG_rules okG_firebase) auto

lemma okG_firebase_flat:
  "\<forall>item\<in>set (toDataArray j). item \<noteq> JNull \<Longrightarrow>
   okG (firebase_generateFlatDocuments A j name opts)"
  unfolding firebase_generateFlatDocuments_def Let_def firebase_flattenObject_def
  by (intro okG_rules okG_firebase) auto

lemma okG_firebase_arrays:
  "\<forall>item\<in>set (toDataArray j). item \<noteq> JNull \<Longrightarrow>
   okG (firebase_generateArrayBasedDocuments A j name opts)"
  unfolding firebase_generateArrayBasedDocuments_def Let_def
  by (intro okG_rules okG_firebase) auto

lemma okG_firebase_refs:
  "firebase_extractReferencedCollections (toDataArray j) (jsSet name (toDataArray j) []) = Inr cs \<Longrightarrow>
   \<forall>(c, items)\<in>set cs. \<forall>item\<in>set items. item \<noteq> JNull \<Longrightarrow>
   okG (firebase_generateReferencedDocuments A j name opts)"
  unfolding firebase_generateReferencedDocuments_def
  by (rule okG_bind_Inr, assumption) (intro okG_rules okG_firebase, auto)

lemma okG_firebase_refs_plain:
  "plainItems (toDataArray j) \<Longrightarrow> okG (firebase_generateReferencedDocuments A j name opts)"
  by (rule okG_firebase_refs[where cs = "jsSet name (toDataArray j) []"])
     (auto simp: firebase_extractReferencedCollections_def extractItems_plain
           dest!: jsSet_single dest: plainItems_nonnull)

lemma okG_firebase_index:
  "\<forall>item\<in>set (toDataArray j). item \<noteq> JNull \<Longrightarrow>
   okG (liftG (firebase_generateIndexSuggestions j name))"
  using indexFields_ok[of j]
  by (auto simp: firebase_generateIndexSuggestions_def okG_def liftG_def)

lemma okG_generateFirebaseDocuments:
  assumes "\<forall>item\<in>set (toDataArray j). item \<noteq> JNull"
    and "structure = ''references'' \<longrightarrow> plainItems (toDataArray j)"
  shows "okG (generateFirebaseDocuments A j structure opts)"
proof -
  from firstKeyName_ok[OF assms(1)] obtain name
    where name: "firstKeyName j ''items'' ''collection'' = Inr name" by blast
  show ?thesis
    unfolding generateFirebaseDocuments_def
    by (rule okG_bind_Inr[OF name])
       (use assms in \<open>auto intro!: okG_rules okG_firebase_nested okG_firebase_flat
          okG_firebase_arrays okG_firebase_refs_plain okG_firebase_index\<close>)
qed

text \<open>The DynamoDB generator.\<close>

lemma okG_dynamo_refFields: "okG (dynamo_refFields A es)"
  unfolding dynamo_refFields_def by (intro okG_rules)

lemmas okG_dynamo = okG_dynamo_keys okG_dynamo_fields okG_dynamo_refFields

lemma okG_dynamo_nested:
  "\<forall>item\<in>set (toDataArray j). item \<noteq> JNull \<Longrightarrow>
   okG (dynamo_generateNestedDocuments A j name opts)"
  unfolding dynamo_generateNestedDocuments_def Let_def
  by (intro okG_rules okG_dynamo) auto

lemma okG_dynamo_flat:
  "\<forall>item\<in>set (toDataArray j). item \<noteq> JNull \<Longrightarrow>
   okG (dynamo_generateFlatDocuments A j name opts)"
  unfolding dynamo_generateFlatDocuments_def Let_def dynamo_flattenObject_def
  by (intro okG_rules okG_dynamo) auto

lemma okG_dynamo_arrays:
  "\<forall>item\<in>set (toDataArray j). item \<noteq> JNull \<Longrightarrow>
   okG (dynamo_generateArrayBasedDocuments A j name opts)"
  unfolding dynamo_generateArrayBasedDocuments_def Let_def
  by (intro okG_rules okG_dynamo) auto

lemma okG_dynamo_refs:
  "extractEntities (toDataArray j) (jsSet ''Main'' (toDataArray j) []) = Inr cs \<Longrightarrow>
   \<forall>(c, items)\<in>set cs. \<forall>item\<in>set items. item \<noteq> JNull \<Longrightarrow>
   okG (dynamo_generateReferencedDocuments A j name opts)"
  unfolding dynamo_generateReferencedDocuments_def
  by (rule okG_bind_Inr, assumption) (intro okG_rules okG_dynamo, auto)

lemma okG_dynamo_refs_plain:
  "plainItems (toDataArray j) \<Longrightarrow> okG (dynamo_generateReferencedDocuments A j name opts)"
  by (rule okG_dynamo_refs[where cs = "jsSet ''Main'' (toDataArray j) []"])
     (auto simp: extractEntities_def extractItems_plain
           dest!: jsSet_single dest: plainItems_nonnull)

lemma okG_dynamo_index:
  "\<forall>item\<in>set (toDataArray j). item \<noteq> JNull \<Longrightarrow>
   okG (liftG (dynamo_generateIndexSuggestions j name))"
  using indexFields_ok[of j]
  by (auto simp: dynamo_generateIndexSuggestions_def okG_def liftG_def)

lemma okG_generateDynamoDBDocuments:
  assumes "\<forall>item\<in>set (toDataArray j). item \<noteq> JNull"
    and "structure = ''references'' \<longrightarrow> plainItems (toDataArray j)"
  shows "okG (generateDynamoDBDocuments A j structure opts)"
proof -
  from firstKeyName_ok[OF assms(1)] obtain name
    where name: "firstKeyName j ''Items'' ''DynamoTable'' = Inr name" by blast
  show ?thesis
    unfolding generateDynamoDBDocuments_def
    by (rule okG_bind_Inr[OF name])
       (use assms in \<open>auto intro!: okG_rules okG_dynamo_nested okG_dynamo_flat
          okG_dynamo_arrays okG_dynamo_refs_plain okG_dynamo_index\<close>)
qed

text \<open>The CouchDB generator.\<close>

lemma okG_couch_ids: "okG (couch_ids A opts indent)"
  unfolding couch_ids_def by (intro okG_rules)

lemma okG_couch_timestamps: "okG (couch_timestamps A opts indent)"
  unfolding couch_timestamps_def by (intro okG_rules)

lemma okG_couch_fields: "okG (couch_fields indent es)"
  unfolding couch_fields_def by (intro okG_rules)

lemma okG_couch_refFields: "okG (couch_refFields A es)"
  unfolding couch_refFields_def by (intro okG_rules)

lemmas okG_couch = okG_couch_ids okG_couch_timestamps okG_couch_fields okG_couch_refFields

lemma entriesOfFirst_ok:
  "xs \<noteq> [] \<Longrightarrow> \<forall>item\<in>set xs. item \<noteq> JNull \<Longrightarrow> \<exists>es. entriesOfFirst xs = Inr es"
  by (cases xs) (auto simp: entriesOfFirst_def objectEntries_def)

lemma flattenFirst_ok:
  "xs \<noteq> [] \<Longrightarrow> \<forall>item\<in>set xs. item \<noteq> JNull \<Longrightarrow> \<exists>es. flattenFirst xs = Inr es"
  by (cases xs)
     (auto simp: flattenFirst_def couch_flattenObject_def flattenObject_def objectEntries_def)

lemma okG_bind_ex: "\<exists>x. r = Inr x \<Longrightarrow> (\<And>x. okG (f x)) \<Longrightarrow> okG (bindG (liftG r) f)"
  by (auto simp: okG_def bindG_def liftG_def)

lemma okG_couch_nested:
  "\<forall>item\<in>set (toDataArray j). item \<noteq> JNull \<Longrightarrow> toDataArray j \<noteq> [] \<Longrightarrow>
   okG (couch_generateNestedDocuments A j opts)"
  unfolding couch_generateNestedDocuments_def Let_def
  by (intro okG_rules okG_couch okG_bind_ex entriesOfFirst_ok) auto

lemma okG_couch_flat:
  "\<forall>item\<in>set (toDataArray j). item \<noteq> JNull \<Longrightarrow> toDataArray j \<noteq> [] \<Longrightarrow>
   okG (couch_generateFlatDocuments A j opts)"
  unfolding couch_generateFlatDocuments_def Let_def
  by (intro okG_rules okG_couch okG_bind_ex flattenFirst_ok
        okG_bind_flatten[of _ _ "''_''" "[]", folded couch_flattenObject_def]) auto

lemma okG_couch_arrays:
  "\<forall>item\<in>set (toDataArray j). item \<noteq> JNull \<Longrightarrow>
   okG (couch_generateArrayBasedDocuments A j opts)"
  unfolding couch_generateArrayBasedDocuments_def Let_def
  by (intro okG_rules okG_couch) auto

lemma okG_couch_refs:
  "extractReferencedDocTypes (toDataArray j) (jsSet ''main'' (toDataArray j) []) = Inr cs \<Longrightarrow>
   \<forall>(c, items)\<in>set cs. \<forall>item\<in>set items. item \<noteq> JNull \<Longrightarrow>
   okG (couch_generateReferencedDocuments A j opts)"
  unfolding couch_generateReferencedDocuments_def
  by (rule okG_bind_Inr, assumption) (intro okG_rules okG_couch, auto)

lemma okG_couch_refs_plain:
  "plainItems (toDataArray j) \<Longrightarrow> okG (couch_generateReferencedDocuments A j opts)"
  by (rule okG_couch_refs[where cs = "jsSet ''main'' (toDataArray j) []"])
     (auto simp: extractReferencedDocTypes_def extractItems_plain
           dest!: jsSet_single dest: plainItems_nonnull)

lemma okG_couch_index:
  "\<forall>item\<in>set (toDataArray j). item \<noteq> JNull \<Longrightarrow>
   okG (liftG (couch_generateIndexSuggestions j))"
  using indexFields_ok[of j]
  by (auto simp: couch_generateIndexSuggestions_def okG_def liftG_def)

lemma okG_generateCouchDBDocuments:
  assumes "\<forall>item\<in>set (toDataArray j). item \<noteq> JNull"
    and "structure = ''references'' \<longrightarrow> plainItems (toDataArray j)"
    and "toDataArray j \<noteq> [] \<or> structure = ''references'' \<or> structure = ''arrays''"
  shows "okG (generateCouchDBDocuments A j structure opts)"
  unfolding generateCouchDBDocuments_def Let_def
  by (use assms in \<open>auto intro!: okG_rules okG_couch_nested okG_couch_flat
          okG_couch_arrays okG_couch_refs_plain okG_couch_index\<close>)

section \<open>Roots that are neither objects nor arrays\<close>

lemma numberValue_safeInteger:
  "numberValue (safeInteger n) = (if \<bar>n\<bar> < 9007199254740992 then n else 0)"
  by (simp add: numberValue.rep_eq safeInteger.rep_eq)

lemmas gen_eval = seqG.simps(2) bindG_def retG_def emit_def whenG_def liftG_def forEachG_def
  generateId_def nowISO_def toDataArray_def objectEntries_def objectKeys_def firstKeyName_def
  commaUnlessLast_def ordinal_def natToString.simps digitChar_def numberToString_def
  booleanToString_def dq_def sq_def bsl_def noOptions_def fixedAmbient_def Let_def
  numberValue_safeInteger

lemmas mongo_eval = generateMongoDBDocuments_def mongo_generateNestedDocuments_def
  mongo_generateFlatDocuments_def mongo_generateReferencedDocuments_def
  mongo_generateArrayBasedDocuments_def mongo_ids_def mongo_timestamps_def mongo_fields_def
  mongo_refFields_def mongo_flattenObject_def

lemma scalar_plainItems: "\<not> isObjectOrArray r \<Longrightarrow> r \<noteq> JNull \<Longrightarrow> plainItems [r]"
  by (cases r)
     (auto simp: plainItems_def isObjectOrArray_def list_all_iff isNonEmptyObject_def
        isArrayOfObjects_def dest!: set_zip_rightD)

lemma jsSet_Nil: "jsSet k v [] = (if k = ''__proto__'' then [] else [(k, v)])"
  by (simp add: jsSet_def)

lemma scalar_root_facts:
  assumes "\<not> isObjectOrArray r" and "r \<noteq> JNull"
  shows "toDataArray r = [r]"
    and "toDataArray (JObj (ownEntries r)) = [JObj (ownEntries r)]"
    and "objectEntries (JObj (ownEntries r)) = objectEntries r"
    and "flattenObject sep (JObj (ownEntries r)) p = flattenObject sep r p"
    and "firstKeyName (JObj (ownEntries r)) a d = firstKeyName r a d"
    and "indexFields (JObj (ownEntries r)) = indexFields r"
    and "extractItems nameObj nameArr [JObj (ownEntries r)] cs = extractItems nameObj nameArr [r] cs"
    and "entriesOfFirst [JObj (ownEntries r)] = entriesOfFirst [r]"
    and "flattenFirst [JObj (ownEntries r)] = flattenFirst [r]"
    and "extractItems nameObj nameArr [r] cs = Inr cs"
proof -
  show "extractItems nameObj nameArr [r] cs = Inr cs"
    by (rule extractItems_plain) (rule scalar_plainItems[OF assms])
  show "toDataArray r = [r]"
    using assms(1) by (cases r) (simp_all add: toDataArray_def isObjectOrArray_def)
  show "toDataArray (JObj (ownEntries r)) = [JObj (ownEntries r)]"
    by (simp add: toDataArray_def)
  show e: "objectEntries (JObj (ownEntries r)) = objectEntries r"
    using assms(2) by (simp add: objectEntries_def)
  show f: "flattenObject sep (JObj (ownEntries r)) p = flattenObject sep r p" for sep p
    by (simp add: flattenObject_def e)
  show "firstKeyName (JObj (ownEntries r)) a d = firstKeyName r a d"
    using assms by (cases r) (simp_all add: firstKeyName_def objectKeys_def isObjectOrArray_def)
  show "indexFields (JObj (ownEntries r)) = indexFields r"
    using assms(1) by (cases r) (simp_all add: indexFields_def isObjectOrArray_def)
  show "extractItems nameObj nameArr [JObj (ownEntries r)] cs = extractItems nameObj nameArr [r] cs"
    by (simp add: e)
  show "entriesOfFirst [JObj (ownEntries r)] = entriesOfFirst [r]"
    by (simp add: entriesOfFirst_def e)
  show "flattenFirst [JObj (ownEntries r)] = flattenFirst [r]"
    by (simp add: flattenFirst_def couch_flattenObject_def f)
qed

lemma bindG_liftG_Inr: "bindG (liftG (Inr x)) f = f x"
  by (rule ext) (simp add: bindG_def liftG_def)

lemmas scalar_root_simps = forEachG_def bindG_liftG_Inr Let_def mongo_flattenObject_def
  firebase_flattenObject_def dynamo_flattenObject_def couch_flattenObject_def
  mongo_extractReferencedCollections_def firebase_extractReferencedCollections_def
  extractEntities_def extractReferencedDocTypes_def jsSet_Nil

lemma mongo_scalar_root:
  assumes "\<not> isObjectOrArray r" and "r \<noteq> JNull"
  shows "generateMongoDBDocuments A (JObj (ownEntries r)) structure opts =
         generateMongoDBDocuments A r structure opts"
proof -
  note f = scalar_root_facts[OF assms] scalar_root_simps
  have 1: "mongo_generateNestedDocuments A (JObj (ownEntries r)) c opts =
        mongo_generateNestedDocuments A r c opts" for c
    by (simp add: mongo_generateNestedDocuments_def f)
  have 2: "mongo_generateFlatDocuments A (JObj (ownEntries r)) c opts =
        mongo_generateFlatDocuments A r c opts" for c
    by (simp add: mongo_generateFlatDocuments_def f)
  have 3: "mongo_generateReferencedDocuments A (JObj (ownEntries r)) c opts =
        mongo_generateReferencedDocuments A r c opts" for c
    by (simp add: mongo_generateReferencedDocuments_def f del: extractItems.simps)
  have 4: "mongo_generateArrayBasedDocuments A (JObj (ownEntries r)) c opts =
        mongo_generateArrayBasedDocuments A r c opts" for c
    by (simp add: mongo_generateArrayBasedDocuments_def f)
  have 5: "mongo_generateIndexSuggestions (JObj (ownEntries r)) c =
        mongo_generateIndexSuggestions r c" for c
    by (simp add: mongo_generateIndexSuggestions_def f)
  show ?thesis
    unfolding generateMongoDBDocuments_def 1 2 3 4 5 f(5) ..
qed

lemma firebase_scalar_root:
  assumes "\<not> isObjectOrArray r" and "r \<noteq> JNull"
  shows "generateFirebaseDocuments A (JObj (ownEntries r)) structure opts =
         generateFirebaseDocuments A r structure opts"
proof -
  note f = scalar_root_facts[OF assms] scalar_root_simps
  have 1: "firebase_generateNestedDocuments A (JObj (ownEntries r)) c opts =
        firebase_generateNestedDocuments A r c opts" for c
    by (simp add: firebase_generateNestedDocuments_def f)
  have 2: "firebase_generateFlatDocuments A (JObj (ownEntries r)) c opts =
        firebase_generateFlatDocuments A r c opts" for c
    by (simp add: firebase_generateFlatDocuments_def f)
  have 3: "firebase_generateReferencedDocuments A (JObj (ownEntries r)) c opts =
        firebase_generateReferencedDocuments A r c opts" for c
    by (simp add: firebase_generateReferencedDocuments_def f del: extractItems.simps)
  have 4: "firebase_generateArrayBasedDocuments A (JObj (ownEntries r)) c opts =
        firebase_generateArrayBasedDocuments A r c opts" for c
    by (simp add: firebase_generateArrayBasedDocuments_def f)
  have 5: "firebase_generateIndexSuggestions (JObj (ownEntries r)) c =
        firebase_generateIndexSuggestions r c" for c
    by (simp add: firebase_generateIndexSuggestions_def f)
  show ?thesis
    unfolding generateFirebaseDocuments_def 1 2 3 4 5 f(5) ..
qed

lemma dynamo_scalar_root:
  assumes "\<not> isObjectOrArray r" and "r \<noteq> JNull"
  shows "generateDynamoDBDocuments A (JObj (ownEntries r)) structure opts =
         generateDynamoDBDocuments A r structure opts"
proof -
  note f = scalar_root_facts[OF assms] scalar_root_simps
  have 1: "dynamo_generateNestedDocuments A (JObj (ownEntries r)) c opts =
        dynamo_generateNestedDocuments A r c opts" for c
    by (simp add: dynamo_generateNestedDocuments_def f)
  have 2: "dynamo_generateFlatDocuments A (JObj (ownEntries r)) c opts =
        dynamo_generateFlatDocuments A r c opts" for c
    by (simp add: dynamo_generateFlatDocuments_def f)
  have 3: "dynamo_generateReferencedDocuments A (JObj (ownEntries r)) c opts =
        dynamo_generateReferencedDocuments A r c opts" for c
    by (simp add: dynamo_generateReferencedDocuments_def f del: extractItems.simps)
  have 4: "dynamo_generateArrayBasedDocuments A (JObj (ownEntries r)) c opts =
        dynamo_generateArrayBasedDocuments A r c opts" for c
    by (simp add: dynamo_generateArrayBasedDocuments_def f)
  have 5: "dynamo_generateIndexSuggestions (JObj (ownEntries r)) c =
        dynamo_generateIndexSuggestions r c" for c
    by (simp add: dynamo_generateIndexSuggestions_def f)
  show ?thesis
    unfolding generateDynamoDBDocuments_def 1 2 3 4 5 f(5) ..
qed

lemma couch_scalar_root:
  assumes "\<not> isObjectOrArray r" and "r \<noteq> JNull"
  shows "generateCouchDBDocuments A (JObj (ownEntries r)) structure opts =
         generateCouchDBDocuments A r structure opts"
proof -
  note f = scalar_root_facts[OF assms] scalar_root_simps
  have 1: "couch_generateNestedDocuments A (JObj (ownEntries r)) opts =
        couch_generateNestedDocuments A r opts"
    by (simp add: couch_generateNestedDocuments_def f)
  have 2: "couch_generateFlatDocuments A (JObj (ownEntries r)) opts =
        couch_generateFlatDocuments A r opts"
    by (simp add: couch_generateFlatDocuments_def f)
  have 3: "couch_generateReferencedDocuments A (JObj (ownEntries r)) opts =
        couch_generateReferencedDocuments A r opts"
    by (simp add: couch_generateReferencedDocuments_def f del: extractItems.simps)
  have 4: "couch_generateArrayBasedDocuments A (JObj (ownEntries r)) opts =
        couch_generateArrayBasedDocuments A r opts"
    by (simp add: couch_generateArrayBasedDocuments_def f)
  have 5: "couch_generateIndexSuggestions (JObj (ownEntries r)) =
        couch_generateIndexSuggestions r"
    by (simp add: couch_generateIndexSuggestions_def f)
  show ?thesis
    unfolding generateCouchDBDocuments_def 1 2 3 4 5 ..
qed

lemmas firebase_eval = generateFirebaseDocuments_def firebase_generateNestedDocuments_def
  firebase_docOpen_def firebase_timestamps_def firebase_fields_def

lemmas dynamo_eval = generateDynamoDBDocuments_def dynamo_generateNestedDocuments_def
  dynamo_keys_def dynamo_fields_def

lemmas couch_eval = generateCouchDBDocuments_def couch_generateNestedDocuments_def
  couch_ids_def couch_timestamps_def couch_fields_def entriesOfFirst_def

text \<open>
  Claim C2, as amended. No module checks that the root is an object or an array. For
  every backend and every structure policy, a root that is neither: when it is falsy
  (\<open>null\<close>, \<open>false\<close>, \<open>0\<close>, the empty string) the dispatcher throws the plain
  \<open>Error('No JSON data provided')\<close>; otherwise (for example \<open>"hello"\<close> or \<open>42\<close>)
  nothing is thrown and a generated text is returned, and it is the text that is
  generated for the object whose properties are the \<open>Object.entries\<close> of the root (the
  indexed characters of a string, none for a number or a boolean): the root is written as
  one document with these fields.
\<close>

theorem scalar_root_generates:
  assumes "\<not> isObjectOrArray r"
    and "dbType \<in> set [''mongodb'', ''firebase'', ''dynamodb'', ''couchdb'']"
    and "structure \<noteq> []"
  shows "if truthy r
         then (\<exists>out w'. generateNoSQL A r dbType structure opts w
                  = Inr ((out, dbType, structure), w')) \<and>
              generateNoSQL A (JObj (ownEntries r)) dbType structure opts w
                  = generateNoSQL A r dbType structure opts w
         else generateNoSQL A r dbType structure opts w = Inl (Error ''No JSON data provided'')"
proof (cases "truthy r")
  case False
  then show ?thesis
    by (simp add: generateNoSQL_def liftG_def)
next
  case True
  then have nn: "r \<noteq> JNull" by auto
  have arr: "toDataArray r = [r]"
    using assms(1) by (cases r) (auto simp: toDataArray_def isObjectOrArray_def)
  have plain: "plainItems (toDataArray r)"
    using scalar_plainItems[OF assms(1) nn] arr by simp
  have items: "\<forall>item\<in>set (toDataArray r). item \<noteq> JNull"
    using nn arr by simp
  have "okG (if dbType = ''mongodb'' then generateMongoDBDocuments A r structure opts
         else if dbType = ''firebase'' then generateFirebaseDocuments A r structure opts
         else if dbType = ''dynamodb'' then generateDynamoDBDocuments A r structure opts
         else if dbType = ''couchdb'' then generateCouchDBDocuments A r structure opts
         else liftG (Inl (Error (''Unsupported database type: '' @ dbType))))"
  proof -
    have "okG (generateMongoDBDocuments A r structure opts)"
      by (rule okG_generateMongoDBDocuments) (use items plain in auto)
    moreover have "okG (generateFirebaseDocuments A r structure opts)"
      by (rule okG_generateFirebaseDocuments) (use items plain in auto)
    moreover have "okG (generateDynamoDBDocuments A r structure opts)"
      by (rule okG_generateDynamoDBDocuments) (use items plain in auto)
    moreover have "okG (generateCouchDBDocuments A r structure opts)"
      by (rule okG_generateCouchDBDocuments) (use items plain arr in auto)
    ultimately show ?thesis
      using assms(2) by auto
  qed
  then obtain out w' where o:
    "(if dbType = ''mongodb'' then generateMongoDBDocuments A r structure opts
         else if dbType = ''firebase'' then generateFirebaseDocuments A r structure opts
         else if dbType = ''dynamodb'' then generateDynamoDBDocuments A r structure opts
         else if dbType = ''couchdb'' then generateCouchDBDocuments A r structure opts
         else liftG (Inl (Error (''Unsupported database type: '' @ dbType)))) w = Inr (out, w')"
    using okG_D by blast
  have "generateNoSQL A r dbType structure opts w = Inr ((out, dbType, structure), w')"
  proof -
    have "dbType \<noteq> []" using assms(2) by auto
    with True assms(3) o show ?thesis
      by (simp add: generateNoSQL_def bindG_def retG_def)
  qed
  moreover have "generateNoSQL A (JObj (ownEntries r)) dbType structure opts
      = generateNoSQL A r dbType structure opts"
    unfolding generateNoSQL_def mongo_scalar_root[OF assms(1) nn]
      firebase_scalar_root[OF assms(1) nn] dynamo_scalar_root[OF assms(1) nn]
      couch_scalar_root[OF assms(1) nn]
    using True by simp
  ultimately show ?thesis
    using True by auto
qed

text \<open>Witness for C2: the root \<open>42\<close>, the CouchDB backend, the references policy.\<close>

theorem scalar_root_generates_witness:
  "\<not> isObjectOrArray (JNum (safeInteger 42)) \<and>
   ''couchdb'' \<in> set [''mongodb'', ''firebase'', ''dynamodb'', ''couchdb''] \<and>
   ''references'' \<noteq> [] \<and>
   (\<exists>out w'. generateNoSQL fixedAmbient (JNum (safeInteger 42)) ''couchdb'' ''references'' noOptions 0
                = Inr ((out, ''couchdb'', ''references''), w')) \<and>
   generateNoSQL fixedAmbient (JObj []) ''couchdb'' ''references'' noOptions 0
     = generateNoSQL fixedAmbient (JNum (safeInteger 42)) ''couchdb'' ''references'' noOptions 0"
  using scalar_root_generates[of "JNum (safeInteger 42)" "''couchdb''" "''references''" fixedAmbient noOptions 0]
  by (simp add: isObjectOrArray_def numberValue_safeInteger)

text \<open>
  Claim C2 as stated fails: for the root \<open>"hello"\<close> every backend returns a generated text
  under the nested policy, and so does the MongoDB backend for the root \<open>42\<close>. The string
  is written as one document whose fields are its indexed characters, the number as one
  document without fields.
\<close>

theorem scalar_root_counterexample:
  \<open>generateNoSQL fixedAmbient (JStr ''hello'') ''mongodb'' ''nested'' noOptions 0 =
     Inr ((''// MongoDB Shell Commands\<newline>'' @
           ''// Run these commands in MongoDB shell or MongoDB Compass\<newline>\<newline>'' @
           ''use nosql_generator_db;\<newline>\<newline>'' @
           ''// Nested document structure\<newline>'' @
           ''db.0.insertMany([\<newline>'' @
           ''  {\<newline>'' @
           ''    0: "h",\<newline>'' @
           ''    1: "e",\<newline>'' @
           ''    2: "l",\<newline>'' @
           ''    3: "l",\<newline>'' @
           ''    4: "o"\<newline>'' @
           ''  }\<newline>'' @
           '']);\<newline>\<newline>'', ''mongodb'', ''nested''), 0) \<and>
   generateNoSQL fixedAmbient (JNum (safeInteger 42)) ''mongodb'' ''nested'' noOptions 0 =
     Inr ((''// MongoDB Shell Commands\<newline>'' @
           ''// Run these commands in MongoDB shell or MongoDB Compass\<newline>\<newline>'' @
           ''use nosql_generator_db;\<newline>\<newline>'' @
           ''// Nested document structure\<newline>'' @
           ''db.collection.insertMany([\<newline>'' @
           ''  {\<newline>'' @
           ''  }\<newline>'' @
           '']);\<newline>\<newline>'', ''mongodb'', ''nested''), 0) \<and>
   generateNoSQL fixedAmbient (JStr ''hello'') ''firebase'' ''nested'' noOptions 0 =
     Inr ((''// Firebase Firestore Code\<newline>'' @
           ''// Requires Firebase SDK to be initialized in your project\<newline>\<newline>'' @
           ''// Import Firebase modules\<newline>'' @
           ''import { getFirestore, collection, doc, setDoc, addDoc, serverTimestamp } from "firebase/firestore";\<newline>\<newline>'' @
           ''// Get Firestore instance\<newline>'' @
           ''const db = getFirestore();\<newline>\<newline>'' @
           ''// Nested document structure\<newline>'' @
           ''// Function to add documents to Firestore\<newline>'' @
           ''async function addNestedDocuments() {\<newline>'' @
           ''  const collectionRef = collection(db, "0");\<newline>\<newline>'' @
           ''  // Document 1\<newline>'' @
           ''  await addDoc(collectionRef, {\<newline>'' @
           ''    0: "h",\<newline>'' @
           ''    1: "e",\<newline>'' @
           ''    2: "l",\<newline>'' @
           ''    3: "l",\<newline>'' @
           ''    4: "o"\<newline>'' @
           ''  });\<newline>\<newline>'' @
           ''  console.log("1 documents added to 0 collection");\<newline>'' @
           ''}\<newline>\<newline>'', ''firebase'', ''nested''), 0) \<and>
   generateNoSQL fixedAmbient (JStr ''hello'') ''dynamodb'' ''nested'' noOptions 0 =
     Inr ((''// AWS DynamoDB Code\<newline>'' @
           ''// Requires AWS SDK to be initialized in your project\<newline>\<newline>'' @
           ''// Import AWS SDK modules\<newline>'' @
           ''import { DynamoDBClient } from "@aws-sdk/client-dynamodb";\<newline>'' @
           ''import { DynamoDBDocumentClient, PutCommand, BatchWriteCommand } from "@aws-sdk/lib-dynamodb";\<newline>\<newline>'' @
           ''// Initialize DynamoDB client\<newline>'' @
           ''const client = new DynamoDBClient({ region: "us-east-1" });\<newline>'' @
           ''const docClient = DynamoDBDocumentClient.from(client);\<newline>\<newline>'' @
           ''// Nested document structure\<newline>'' @
           ''// Function to add items using BatchWriteCommand\<newline>'' @
           ''async function addNestedItems() {\<newline>'' @
           ''  const items = [];\<newline>\<newline>'' @
           ''  // Item 1\<newline>'' @
           ''  items.push({\<newline>'' @
           ''    PutRequest: {\<newline>'' @
           ''      Item: {\<newline>'' @
           ''        id: "1",\<newline>'' @
           ''        0: "h",\<newline>'' @
           ''        1: "e",\<newline>'' @
           ''        2: "l",\<newline>'' @
           ''        3: "l",\<newline>'' @
           ''        4: "o",\<newline>'' @
           ''      }\<newline>'' @
           ''    }\<newline>'' @
           ''  });\<newline>\<newline>'' @
           ''  const command = new BatchWriteCommand({\<newline>'' @
           ''    RequestItems: {\<newline>'' @
           ''      "0": items\<newline>'' @
           ''    }\<newline>'' @
           ''  });\<newline>\<newline>'' @
           ''  try {\<newline>'' @
           ''    const response = await docClient.send(command);\<newline>'' @
           ''    console.log("Success - items added to 0");\<newline>'' @
           ''    return response;\<newline>'' @
           ''  } catch (err) {\<newline>'' @
           ''    console.error("Error:", err);\<newline>'' @
           ''  }\<newline>'' @
           ''}\<newline>\<newline>'', ''dynamodb'', ''nested''), 0) \<and>
   generateNoSQL fixedAmbient (JStr ''hello'') ''couchdb'' ''nested'' noOptions 0 =
     Inr ((''// CouchDB Code\<newline>'' @
           ''// Requires nano (CouchDB client) to be installed\<newline>\<newline>'' @
           ''// Import nano\<newline>'' @
           ''const nano = require("nano")("http://localhost:5984");\<newline>\<newline>'' @
           ''// Create database if it doesn'' @ [CHR 0x27] @ ''t exist\<newline>'' @
           ''async function createDatabase() {\<newline>'' @
           ''  try {\<newline>'' @
           ''    await nano.db.create("nosql_generator_db");\<newline>'' @
           ''    console.log("Database '' @ [CHR 0x27] @ ''nosql_generator_db'' @ [CHR 0x27] @ '' created");\<newline>'' @
           ''  } catch (err) {\<newline>'' @
           ''    if (err.statusCode === 412) {\<newline>'' @
           ''      console.log("Database '' @ [CHR 0x27] @ ''nosql_generator_db'' @ [CHR 0x27] @ '' already exists");\<newline>'' @
           ''    } else {\<newline>'' @
           ''      console.error("Error creating database:", err);\<newline>'' @
           ''    }\<newline>'' @
           ''  }\<newline>'' @
           ''}\<newline>\<newline>'' @
           ''// Get database reference\<newline>'' @
           ''const db = nano.use("nosql_generator_db");\<newline>\<newline>'' @
           ''// Nested document structure\<newline>'' @
           ''// Function to add nested documents\<newline>'' @
           ''async function addNestedDocuments() {\<newline>'' @
           ''  // Prepare document\<newline>'' @
           ''  const doc = {\<newline>'' @
           ''    0: "h",\<newline>'' @
           ''    1: "e",\<newline>'' @
           ''    2: "l",\<newline>'' @
           ''    3: "l",\<newline>'' @
           ''    4: "o"\<newline>'' @
           ''  };\<newline>\<newline>'' @
           ''  try {\<newline>'' @
           ''    const response = await db.insert(doc);\<newline>'' @
           ''    console.log("Document inserted successfully:", response.id);\<newline>'' @
           ''    return response;\<newline>'' @
           ''  } catch (err) {\<newline>'' @
           ''    console.error("Error inserting document:", err);\<newline>'' @
           ''    throw err;\<newline>'' @
           ''  }\<newline>'' @
           ''}\<newline>\<newline>'' @
           ''// Main function to execute all operations\<newline>'' @
           ''async function main() {\<newline>'' @
           ''  await createDatabase();\<newline>'' @
           ''  await addNestedDocuments();\<newline>'' @
           ''}\<newline>\<newline>'' @
           ''// Run the main function\<newline>'' @
           ''main().catch(err => console.error("Error:", err));\<newline>'', ''couchdb'', ''nested''), 0)\<close>
  by (intro conjI)
     (simp_all add: generateNoSQL_def gen_eval mongo_eval firebase_eval dynamo_eval couch_eval)

section \<open>Empty input\<close>


lemma failsG_liftG: "failsG (liftG (Inl e)) e"
  by (simp add: failsG_def liftG_def)

lemma failsG_bindG: "failsG m e \<Longrightarrow> failsG (bindG m f) e"
  by (simp add: failsG_def bindG_def)

lemma failsG_seqG_here: "failsG m e \<Longrightarrow> failsG (seqG (m # ms)) e"
  by (simp add: seqG.simps(2) failsG_bindG)

lemma failsG_seqG_later: "okG m \<Longrightarrow> failsG (seqG ms) e \<Longrightarrow> failsG (seqG (m # ms)) e"
  unfolding failsG_def okG_def
proof
  fix w
  assume m: "\<forall>w. \<exists>x w'. m w = Inr (x, w')" and ms: "\<forall>w. seqG ms w = Inl e"
  from m obtain x w1 where "m w = Inr (x, w1)" by blast
  then show "seqG (m # ms) w = Inl e"
    using ms by (simp add: seqG.simps(2) bindG_def)
qed

lemma failsG_D: "failsG m e \<Longrightarrow> m w = Inl e"
  by (simp add: failsG_def)

lemma failsG_couch_nested_empty: "failsG (couch_generateNestedDocuments A (JArr []) opts) TypeError"
  unfolding couch_generateNestedDocuments_def Let_def
  by (simp add: toDataArray_def entriesOfFirst_def)
     (intro failsG_seqG_later failsG_seqG_here failsG_bindG failsG_liftG okG_emit okG_couch_ids
        okG_couch_timestamps)

lemma failsG_couch_flat_empty: "failsG (couch_generateFlatDocuments A (JArr []) opts) TypeError"
  unfolding couch_generateFlatDocuments_def Let_def
  by (simp add: toDataArray_def flattenFirst_def)
     (intro failsG_seqG_later failsG_seqG_here failsG_bindG failsG_liftG okG_emit)

text \<open>
  Claim C8, at the failing input. For the empty array \<open>[]\<close> the CouchDB module throws
  under the nested and under the flat policy, whatever the options: its single-document
  branch reads \<open>dataArray[0]\<close>, which is \<open>undefined\<close>, and \<open>Object.entries\<close> does not
  accept it.
\<close>

theorem couch_empty_array_throws:
  "generateNoSQL A (JArr []) ''couchdb'' ''nested'' opts w = Inl TypeError \<and>
   generateNoSQL A (JArr []) ''couchdb'' ''flat'' opts w = Inl TypeError"
proof -
  have "failsG (generateCouchDBDocuments A (JArr []) ''nested'' opts) TypeError"
    unfolding generateCouchDBDocuments_def Let_def
    by (simp, intro failsG_seqG_later failsG_seqG_here failsG_couch_nested_empty okG_emit)
  moreover have "failsG (generateCouchDBDocuments A (JArr []) ''flat'' opts) TypeError"
    unfolding generateCouchDBDocuments_def Let_def
    by (simp, intro failsG_seqG_later failsG_seqG_here failsG_couch_flat_empty okG_emit)
  ultimately show ?thesis
    by (simp add: generateNoSQL_def bindG_def failsG_D)
qed

text \<open>
  The empty object is handled by every backend under every policy; so is the empty array
  by the other paths, as in \<open>okG_generateMongoDBDocuments\<close> and its siblings.
\<close>

lemma empty_object_ok:
  assumes "dbType \<in> set [''mongodb'', ''firebase'', ''dynamodb'', ''couchdb'']"
    and "structure \<noteq> []"
  shows "\<exists>out w'. generateNoSQL A (JObj []) dbType structure opts w
           = Inr ((out, dbType, structure), w')"
proof -
  have arr: "toDataArray (JObj []) = [JObj []]" by (simp add: toDataArray_def)
  have plain: "plainItems (toDataArray (JObj []))" by (simp add: arr plainItems_def)
  have items: "\<forall>item\<in>set (toDataArray (JObj [])). item \<noteq> JNull" by (simp add: arr)
  have "okG (generateMongoDBDocuments A (JObj []) structure opts)"
    by (rule okG_generateMongoDBDocuments) (use items plain in auto)
  moreover have "okG (generateFirebaseDocuments A (JObj []) structure opts)"
    by (rule okG_generateFirebaseDocuments) (use items plain in auto)
  moreover have "okG (generateDynamoDBDocuments A (JObj []) structure opts)"
    by (rule okG_generateDynamoDBDocuments) (use items plain in auto)
  moreover have "okG (generateCouchDBDocuments A (JObj []) structure opts)"
    by (rule okG_generateCouchDBDocuments) (use items plain arr in auto)
  ultimately have "okG (if dbType = ''mongodb'' then generateMongoDBDocuments A (JObj []) structure opts
         else if dbType = ''firebase'' then generateFirebaseDocuments A (JObj []) structure opts
         else if dbType = ''dynamodb'' then generateDynamoDBDocuments A (JObj []) structure opts
         else if dbType = ''couchdb'' then generateCouchDBDocuments A (JObj []) structure opts
         else liftG (Inl (Error (''Unsupported database type: '' @ dbType))))"
    using assms(1) by auto
  then obtain out w' where o:
    "(if dbType = ''mongodb'' then generateMongoDBDocuments A (JObj []) structure opts
         else if dbType = ''firebase'' then generateFirebaseDocuments A (JObj []) structure opts
         else if dbType = ''dynamodb'' then generateDynamoDBDocuments A (JObj []) structure opts
         else if dbType = ''couchdb'' then generateCouchDBDocuments A (JObj []) structure opts
         else liftG (Inl (Error (''Unsupported database type: '' @ dbType)))) w = Inr (out, w')"
    using okG_D by blast
  have "dbType \<noteq> []" using assms(1) by auto
  with assms(2) o show ?thesis
    by (simp add: generateNoSQL_def bindG_def retG_def)
qed

section \<open>The flat policy\<close>





































section \<open>The names of collections, tables and databases\<close>








































section \<open>Reference extraction\<close>





lemma isArrayIndex_digit: "isArrayIndex k \<Longrightarrow> k \<noteq> [] \<and> isDigit (hd k)"
proof -
  assume "isArrayIndex k"
  then have k: "k = natToString (parseNat k)"
    by (simp add: isArrayIndex_def)
  have "natToString (parseNat k) \<noteq> []"
    by (rule natToString_nonempty)
  moreover have "list_all isDigit (natToString (parseNat k))"
    by (rule natToString_digits)
  ultimately have "natToString (parseNat k) \<noteq> [] \<and> isDigit (hd (natToString (parseNat k)))"
    by (cases "natToString (parseNat k)") simp_all
  with k show ?thesis by simp
qed

lemma letter_not_index: "k \<noteq> [] \<Longrightarrow> \<not> isDigit (hd k) \<Longrightarrow> \<not> isArrayIndex k"
  using isArrayIndex_digit by blast








lemma nestedExample_extract:
  "mongo_extractReferencedCollections [nestedExample] [(''a'', [nestedExample])] =
     Inr [(''a'', [nestedExample]),
          (''as'', [JObj [(''b'', JObj [(''c'', JNum (safeInteger 1))])]])]"
proof -
  have k: "\<not> isArrayIndex ''as''"
    by (rule letter_not_index; simp add: isDigit_def)
  show ?thesis
    by (simp add: mongo_extractReferencedCollections_def nestedExample_def objectEntries_def
        isNonEmptyObject_def isArrayOfObjects_def pushToCollection_def pushAll_def
        objectPrototypeKeys_def jsSet_def k pluralName_def endsWith_def)
qed

lemma nestedExample_run:
  "generateNoSQL fixedAmbient nestedExample ''mongodb'' ''references'' noOptions 0 =
     Inr ((nestedExampleText, ''mongodb'', ''references''), 2)"
proof -
  have k: "\<not> isArrayIndex ''a''"
    by (rule letter_not_index; simp add: isDigit_def)
  have d: "toDataArray nestedExample = [nestedExample]"
    by (simp add: toDataArray_def nestedExample_def)
  have f: "firstKeyName nestedExample ''items'' ''collection'' = Inr ''a''"
    by (simp add: firstKeyName_def objectKeys_def nestedExample_def)
  have j: "jsSet ''a'' [nestedExample] [] = [(''a'', [nestedExample])]"
    by (simp add: jsSet_def k)
  have t: "truthy nestedExample"
    by (simp add: nestedExample_def)
  have n: "natToString 0 = ''0''" "natToString (Suc 0) = ''1''"
    by (simp_all add: natToString.simps[of 0] natToString.simps[of "Suc 0"] digitChar_def)
  have r: "mongo_generateReferencedDocuments fixedAmbient nestedExample ''a'' noOptions 0 =
      Inr (''// Referenced document structure\<newline>'' @
     ''// Collection: a\<newline>'' @
     ''db.a.insertMany([\<newline>'' @
     ''  {\<newline>'' @
     ''    aRef: ObjectId('' @ [dq] @ ''id0'' @ [dq] @ ''),\<newline>'' @
     ''  }\<newline>'' @
     '']);\<newline>\<newline>'' @
     ''// Collection: as\<newline>'' @
     ''db.as.insertMany([\<newline>'' @
     ''  {\<newline>'' @
     ''    bRef: ObjectId('' @ [dq] @ ''id1'' @ [dq] @ ''),\<newline>'' @
     ''  }\<newline>'' @
     '']);\<newline>\<newline>'', 2)"
    unfolding mongo_generateReferencedDocuments_def d j nestedExample_extract
    by (simp add: nestedExample_def seqG.simps(2) bindG_def retG_def emit_def whenG_def
        liftG_def forEachG_def generateId_def objectEntries_def commaUnlessLast_def
        noOptions_def fixedAmbient_def mongo_ids_def mongo_timestamps_def mongo_refFields_def
        isNonEmptyObject_def n dq_def)
  show ?thesis
    using r
    by (simp add: generateNoSQL_def generateMongoDBDocuments_def t f seqG.simps(2) bindG_def
        retG_def emit_def whenG_def liftG_def noOptions_def nestedExampleText_def dq_def)
qed


text \<open>
  Claim C4 fails in the code. A field that holds a non-empty object is collected as it
  is: the extraction does not look into the object, whatever it holds. For
  \<open>{"a": {"b": {"c": 1}}}\<close> the MongoDB backend writes the collection \<open>a\<close> with the
  reference \<open>aRef\<close> and the collection \<open>as\<close> with the reference \<open>bRef\<close>; the object
  \<open>{"c": 1}\<close> is in no collection and the field \<open>c\<close> is nowhere in the text.
\<close>

theorem nested_object_not_extracted:
  \<open>extractFields nameObj nameArr [(key, JObj (e # es))] cs =
     pushToCollection (nameObj key) [JObj (e # es)] cs \<and>
   generateNoSQL fixedAmbient nestedExample ''mongodb'' ''references'' noOptions 0 =
     Inr ((nestedExampleText, ''mongodb'', ''references''), 2) \<and>
   includesStr nestedExampleText ''bRef: ObjectId("id1")'' \<and>
   \<not> includesStr nestedExampleText ''c: 1''\<close>
proof -
  have "extractFields nameObj nameArr [(key, JObj (e # es))] cs =
     pushToCollection (nameObj key) [JObj (e # es)] cs"
    by (cases "pushToCollection (nameObj key) [JObj (e # es)] cs")
       (simp_all add: isNonEmptyObject_def isArrayOfObjects_def)
  moreover have \<open>includesStr nestedExampleText ''bRef: ObjectId("id1")'' \<and>
      \<not> includesStr nestedExampleText ''c: 1''\<close>
    by (simp add: nestedExampleText_def startsWith_def)
  ultimately show ?thesis
    using nestedExample_run by (simp only: simp_thms)
qed

end
